theory Spec2Isabelle
  imports Main
begin

section \<open>The GitHub source of nvchecker (nvchecker_source/github.py)\<close>

text \<open>
  The module resolves the newest upstream version of a GitHub repository from a
  configuration entry. The embedding follows the Python text: dictionaries are maps or
  association lists, every exception is a value of the type \<open>error\<close>, and the calls that
  leave the module (key manager, HTTP transport behind the cache, \<open>time.ctime\<close>, \<open>str\<close> of
  a non-string JSON value, \<open>int\<close> of a string that is not ASCII, the interpreter's limit on
  the digits of an integer string) are fields of an environment record. Every function returns,
  beside its result, the list of requests it handed to the transport, in order.
\<close>

subsection \<open>Values\<close>

text \<open>
  Configuration values: the documented options are strings and booleans;
  \<open>CNone\<close> is Python's \<open>None\<close>, the default of \<open>conf.get(k)\<close>.
\<close>

datatype cval = CNone | CStr string | CBool bool

text \<open>Decoded JSON. Numbers are integers here; no function of the module computes on them.\<close>

datatype json =
    JNull
  | JBool bool
  | JInt int
  | JStr string
  | JArr "json list"
  | JObj "(string \<times> json) list"

type_synonym headers = "(string \<times> string) list"

text \<open>The response attached to a transport failure: only its headers are read.\<close>

record response =
  resp_headers :: headers

datatype key = KStr string | KInt int

datatype error =
    GetVersionError string
  | TemporaryError int string "response option"
  | KeyError key
  | IndexError
  | TypeError
  | ValueError
  | AttributeError
  | OtherError string

record richresult =
  version :: json
  url :: json

text \<open>What a resolution returns: \<open>NoResult\<close> is Python's \<open>None\<close>.\<close>

datatype version_result =
    NoResult
  | Single richresult
  | Multi "richresult list"

datatype request =
    Post string headers string
  | GetJson string headers

record logentry =
  log_level :: string
  log_event :: string
  log_name :: string
  log_reset :: int

record env =
  get_key :: "string \<Rightarrow> string option"
  session_post :: "string \<Rightarrow> headers \<Rightarrow> string \<Rightarrow> error + json"
  cache_get_json :: "string \<Rightarrow> headers \<Rightarrow> error + json"
  str_nonstr :: "json \<Rightarrow> string"
  time_ctime :: "int \<Rightarrow> error + string"
  int_nonascii :: "string \<Rightarrow> error + int"
  int_max_str_digits :: nat

subsection \<open>Python primitives\<close>

text \<open>Truth values of \<open>if x\<close> and \<open>not x\<close>.\<close>

fun truthy :: "cval \<Rightarrow> bool" where
  "truthy CNone = False"
| "truthy (CStr s) = (s \<noteq> [])"
| "truthy (CBool b) = b"

fun json_truthy :: "json \<Rightarrow> bool" where
  "json_truthy JNull = False"
| "json_truthy (JBool b) = b"
| "json_truthy (JInt i) = (i \<noteq> 0)"
| "json_truthy (JStr s) = (s \<noteq> [])"
| "json_truthy (JArr xs) = (xs \<noteq> [])"
| "json_truthy (JObj kvs) = (kvs \<noteq> [])"

text \<open>\<open>str(v)\<close>, as used by \<open>%s\<close>, f-strings, \<open>str.format\<close> and \<open>urlencode\<close>.\<close>

fun py_str :: "cval \<Rightarrow> string" where
  "py_str CNone = ''None''"
| "py_str (CStr s) = s"
| "py_str (CBool b) = (if b then ''True'' else ''False'')"

definition json_str :: "env \<Rightarrow> json \<Rightarrow> string" where
  "json_str e j = (case j of JStr s \<Rightarrow> s | _ \<Rightarrow> str_nonstr e j)"

text \<open>\<open>conf.get(k, d)\<close> and \<open>conf.get(k)\<close>.\<close>

definition conf_get :: "(string \<rightharpoonup> cval) \<Rightarrow> string \<Rightarrow> cval \<Rightarrow> cval" where
  "conf_get conf k d = (case conf k of None \<Rightarrow> d | Some v \<Rightarrow> v)"

text \<open>\<open>j[k]\<close> with a string key and \<open>j[i]\<close> with a non-negative index.\<close>

fun subscript_key :: "json \<Rightarrow> string \<Rightarrow> error + json" where
  "subscript_key (JObj kvs) k =
     (case map_of kvs k of None \<Rightarrow> Inl (KeyError (KStr k)) | Some v \<Rightarrow> Inr v)"
| "subscript_key _ k = Inl TypeError"

fun subscript_idx :: "json \<Rightarrow> nat \<Rightarrow> error + json" where
  "subscript_idx (JArr xs) i = (if i < length xs then Inr (xs ! i) else Inl IndexError)"
| "subscript_idx (JStr s) i = (if i < length s then Inr (JStr [s ! i]) else Inl IndexError)"
| "subscript_idx (JObj kvs) i = Inl (KeyError (KInt (int i)))"
| "subscript_idx _ i = Inl TypeError"

text \<open>A method of \<open>str\<close> called on a value: any other type raises AttributeError.\<close>

fun as_str :: "json \<Rightarrow> error + string" where
  "as_str (JStr s) = Inr s"
| "as_str _ = Inl AttributeError"

fun cval_as_str :: "cval \<Rightarrow> error + string" where
  "cval_as_str (CStr s) = Inr s"
| "cval_as_str _ = Inl AttributeError"

text \<open>\<open>for x in j\<close>: the elements of a list, the keys of a dict, the characters of a str.\<close>

fun json_iter :: "json \<Rightarrow> error + json list" where
  "json_iter (JArr xs) = Inr xs"
| "json_iter (JObj kvs) = Inr (map (\<lambda>kv. JStr (fst kv)) kvs)"
| "json_iter (JStr s) = Inr (map (\<lambda>c. JStr [c]) s)"
| "json_iter _ = Inl TypeError"

text \<open>\<open>k in s\<close> on strings is the substring test.\<close>

fun py_in_str :: "string \<Rightarrow> string \<Rightarrow> bool" where
  "py_in_str k [] = (k = [])"
| "py_in_str k (x # xs) = (take (length k) (x # xs) = k \<or> py_in_str k xs)"

fun json_contains :: "string \<Rightarrow> json \<Rightarrow> error + bool" where
  "json_contains k (JObj kvs) = Inr (k \<in> set (map fst kvs))"
| "json_contains k (JArr xs) = Inr (JStr k \<in> set xs)"
| "json_contains k (JStr s) = Inr (py_in_str k s)"
| "json_contains k _ = Inl TypeError"

text \<open>\<open>s.split(c, n)\<close> for a one-character separator, and \<open>s.split(c)\<close>.\<close>

fun split_max :: "char \<Rightarrow> nat \<Rightarrow> string \<Rightarrow> string list" where
  "split_max c 0 s = [s]"
| "split_max c (Suc n) [] = [[]]"
| "split_max c (Suc n) (x # xs) =
     (if x = c then [] # split_max c n xs
      else (let r = split_max c (Suc n) xs in (x # hd r) # tl r))"

definition py_split :: "char \<Rightarrow> string \<Rightarrow> string list" where
  "py_split c s = split_max c (length s) s"

text \<open>\<open>s.rstrip(chars)\<close> and \<open>s.replace(c, new)\<close> for a one-character pattern.\<close>

definition py_rstrip :: "string \<Rightarrow> string \<Rightarrow> string" where
  "py_rstrip chars s = rev (dropWhile (\<lambda>c. c \<in> set chars) (rev s))"

definition py_replace :: "char \<Rightarrow> string \<Rightarrow> string \<Rightarrow> string" where
  "py_replace c new s = concat (map (\<lambda>x. if x = c then new else [x]) s)"

text \<open>Exceptions propagate through a sequence of statements.\<close>

fun err_bind :: "error + 'a \<Rightarrow> ('a \<Rightarrow> error + 'b) \<Rightarrow> error + 'b" where
  "err_bind (Inl x) f = Inl x"
| "err_bind (Inr v) f = f v"

text \<open>\<open>j[k1][k2]...\<close>, left to right.\<close>

fun subscript_keys :: "json \<Rightarrow> string list \<Rightarrow> error + json" where
  "subscript_keys j [] = Inr j"
| "subscript_keys j (k # ks) = err_bind (subscript_key j k) (\<lambda>v. subscript_keys v ks)"

text \<open>A list comprehension stops at the first element that raises.\<close>

fun map_err :: "('a \<Rightarrow> error + 'b) \<Rightarrow> 'a list \<Rightarrow> error + 'b list" where
  "map_err f [] = Inr []"
| "map_err f (x # xs) =
     err_bind (f x) (\<lambda>y. err_bind (map_err f xs) (\<lambda>ys. Inr (y # ys)))"

subsection \<open>\<open>int\<close> on a header value\<close>

text \<open>
  \<open>int(s)\<close> on an ASCII string: the whitespace that \<open>int\<close> skips on both sides (tab,
  line feed, vertical tab, form feed, carriage return and space, not the separators
  0x1c-0x1f that \<open>str.strip\<close> also removes), an optional sign, decimal digits with single
  underscores between digits. Anything else raises ValueError, and so does a string of
  more than 640 digits that exceeds the interpreter's limit \<open>sys.get_int_max_str_digits()\<close>
  (4300 by default since Python 3.11; 0 means no limit, as in earlier versions). A string
  with a character outside ASCII is first transliterated by the interpreter (Unicode
  digits and spaces): its value is taken from the environment.
\<close>

definition is_space :: "char \<Rightarrow> bool" where
  "is_space c = (let n = (of_char c :: nat) in (9 \<le> n \<and> n \<le> 13) \<or> n = 32)"

definition is_digit :: "char \<Rightarrow> bool" where
  "is_digit c = (let n = (of_char c :: nat) in 48 \<le> n \<and> n \<le> 57)"

definition digit_val :: "char \<Rightarrow> nat" where
  "digit_val c = (of_char c :: nat) - 48"

definition py_strip :: "string \<Rightarrow> string" where
  "py_strip s = rev (dropWhile is_space (rev (dropWhile is_space s)))"

fun int_digits :: "string \<Rightarrow> nat \<Rightarrow> nat option" where
  "int_digits [] acc = Some acc"
| "int_digits [c] acc = (if is_digit c then Some (10 * acc + digit_val c) else None)"
| "int_digits (c # d # ds) acc =
     (if is_digit c then int_digits (d # ds) (10 * acc + digit_val c)
      else if c = CHR ''_'' \<and> is_digit d then int_digits ds (10 * acc + digit_val d)
      else None)"

definition int_unsigned :: "string \<Rightarrow> nat option" where
  "int_unsigned s =
     (case s of [] \<Rightarrow> None
      | d # ds \<Rightarrow> if is_digit d then int_digits ds (digit_val d) else None)"

definition is_ascii :: "char \<Rightarrow> bool" where
  "is_ascii c = ((of_char c :: nat) < 128)"

definition digit_count :: "string \<Rightarrow> nat" where
  "digit_count s = length (filter is_digit s)"

definition over_digit_limit :: "env \<Rightarrow> string \<Rightarrow> bool" where
  "over_digit_limit e s =
     (640 < digit_count s \<and> 0 < int_max_str_digits e \<and> int_max_str_digits e < digit_count s)"

definition py_int :: "env \<Rightarrow> string \<Rightarrow> error + int" where
  "py_int e s =
     (if \<not> list_all is_ascii s then int_nonascii e s
      else
        (case py_strip s of
           [] \<Rightarrow> Inl ValueError
         | c # cs \<Rightarrow>
             (let body = (if c = CHR ''-'' \<or> c = CHR ''+'' then cs else c # cs)
              in case int_unsigned body of
                   None \<Rightarrow> Inl ValueError
                 | Some n \<Rightarrow>
                     if over_digit_limit e body then Inl ValueError
                     else Inr (if c = CHR ''-'' then - int n else int n))))"

subsection \<open>\<open>urllib.parse.urlencode\<close>\<close>

text \<open>
  \<open>urlencode\<close> of a dict joins \<open>quote_plus(k) = quote_plus(str(v))\<close> with \<open>&\<close>.
  \<open>quote_plus\<close> keeps letters, digits and \<open>_.-~\<close>, writes a space as \<open>+\<close> and every other
  byte as \<open>%XX\<close> in upper-case hexadecimal.
\<close>

definition url_safe :: "char \<Rightarrow> bool" where
  "url_safe c =
     (let n = (of_char c :: nat) in
        (65 \<le> n \<and> n \<le> 90) \<or> (97 \<le> n \<and> n \<le> 122) \<or> (48 \<le> n \<and> n \<le> 57)
        \<or> c \<in> set ''_.-~'')"

definition hex_digit :: "nat \<Rightarrow> char" where
  "hex_digit n = ''0123456789ABCDEF'' ! (n mod 16)"

definition quote_char :: "char \<Rightarrow> string" where
  "quote_char c =
     (if url_safe c then [c]
      else if c = CHR '' '' then ''+''
      else [CHR ''%'', hex_digit ((of_char c :: nat) div 16), hex_digit (of_char c :: nat)])"

definition quote_plus :: "string \<Rightarrow> string" where
  "quote_plus s = concat (map quote_char s)"

fun join_amp :: "string list \<Rightarrow> string" where
  "join_amp [] = []"
| "join_amp [x] = x"
| "join_amp (x # y # ys) = x @ ''&'' @ join_amp (y # ys)"

definition urlencode :: "(string \<times> cval) list \<Rightarrow> string" where
  "urlencode ps = join_amp (map (\<lambda>kv. quote_plus (fst kv) @ ''='' @ quote_plus (py_str (snd kv))) ps)"

subsection \<open>Constants of the module\<close>

text \<open>The URL templates, applied to \<open>str(repo)\<close> as \<open>template % repo\<close> does.\<close>

definition GITHUB_URL :: "string \<Rightarrow> string" where
  "GITHUB_URL repo = ''https://api.github.com/repos/'' @ repo @ ''/commits''"

definition GITHUB_LATEST_RELEASE :: "string \<Rightarrow> string" where
  "GITHUB_LATEST_RELEASE repo = ''https://api.github.com/repos/'' @ repo @ ''/releases/latest''"

definition GITHUB_MAX_TAG :: "string \<Rightarrow> string" where
  "GITHUB_MAX_TAG repo = ''https://api.github.com/repos/'' @ repo @ ''/git/refs/tags''"

definition GITHUB_GRAPHQL_URL :: string where
  "GITHUB_GRAPHQL_URL = ''https://api.github.com/graphql''"

text \<open>The two GraphQL documents, as \<open>str.format\<close> renders them.\<close>

definition QUERY_LATEST_TAG :: "string \<Rightarrow> string \<Rightarrow> string \<Rightarrow> string" where
  \<open>QUERY_LATEST_TAG owner name query =
     ''\<newline>{\<newline>  repository(name: "'' @ name @ ''", owner: "'' @ owner @ ''") {\<newline>''
     @ ''    refs(refPrefix: "refs/tags/", first: 1,\<newline>''
     @ ''         query: "'' @ query @ ''",\<newline>''
     @ ''         orderBy: {field: TAG_COMMIT_DATE, direction: DESC}) {\<newline>''
     @ ''      edges {\<newline>        node {\<newline>          name\<newline>        }\<newline>      }\<newline>''
     @ ''    }\<newline>  }\<newline>}\<newline>''\<close>

definition QUERY_LATEST_RELEASE_WITH_PRERELEASES :: "string \<Rightarrow> string \<Rightarrow> string" where
  \<open>QUERY_LATEST_RELEASE_WITH_PRERELEASES owner name =
     ''\<newline>{\<newline>  repository(name: "'' @ name @ ''", owner: "'' @ owner @ ''") {\<newline>''
     @ ''    releases(first: 1, orderBy: {field: CREATED_AT, direction: DESC}) {\<newline>''
     @ ''      edges {\<newline>        node {\<newline>          name\<newline>          url\<newline>        }\<newline>      }\<newline>''
     @ ''    }\<newline>  }\<newline>}\<newline>''\<close>

definition tag_url :: "string \<Rightarrow> string \<Rightarrow> string" where
  "tag_url repo v = ''https://github.com/'' @ repo @ ''/releases/tag/'' @ v"

definition token_required :: error where
  "token_required = GetVersionError ''token not given but it is required''"

subsection \<open>The GraphQL strategies\<close>

text \<open>
  \<open>get_latest_tag\<close> and \<open>get_latest_release_with_prereleases\<close>. \<open>session.post\<close> followed
  by \<open>res.json()\<close> is one call of the transport, which returns the decoded body or raises.
\<close>

definition graphql_headers :: "cval \<Rightarrow> headers" where
  "graphql_headers token =
     [(''Authorization'', ''bearer '' @ py_str token), (''Content-Type'', ''application/json'')]"

definition latest_tag_result :: "env \<Rightarrow> cval \<Rightarrow> json \<Rightarrow> error + version_result" where
  "latest_tag_result e repo j =
     err_bind (subscript_keys j [''data'', ''repository'', ''refs'', ''edges'']) (\<lambda>refs.
       if \<not> json_truthy refs then Inl (GetVersionError ''no tag found'')
       else
         err_bind (subscript_idx refs 0) (\<lambda>r0.
         err_bind (subscript_keys r0 [''node'', ''name'']) (\<lambda>v.
           Inr (Single \<lparr>version = v, url = JStr (tag_url (py_str repo) (json_str e v))\<rparr>))))"

definition get_latest_tag ::
    "env \<Rightarrow> cval \<times> cval \<times> cval \<Rightarrow> (error + version_result) \<times> request list" where
  "get_latest_tag e k =
     (case k of (repo, query, token) \<Rightarrow>
        (case cval_as_str repo of
           Inl x \<Rightarrow> (Inl x, [])
         | Inr r \<Rightarrow>
             (case py_split CHR ''/'' r of
                [owner, reponame] \<Rightarrow>
                  (let hs = graphql_headers token;
                       q = QUERY_LATEST_TAG owner reponame (py_str query)
                   in (err_bind (session_post e GITHUB_GRAPHQL_URL hs q) (latest_tag_result e repo),
                       [Post GITHUB_GRAPHQL_URL hs q]))
              | _ \<Rightarrow> (Inl ValueError, []))))"

definition latest_release_result :: "json \<Rightarrow> error + version_result" where
  "latest_release_result j =
     err_bind (subscript_keys j [''data'', ''repository'', ''releases'', ''edges'']) (\<lambda>refs.
       if \<not> json_truthy refs then Inl (GetVersionError ''no release found'')
       else
         err_bind (subscript_idx refs 0) (\<lambda>r0.
         err_bind (subscript_keys r0 [''node'', ''name'']) (\<lambda>v.
         err_bind (subscript_idx refs 0) (\<lambda>r1.
         err_bind (subscript_keys r1 [''node'', ''url'']) (\<lambda>u.
           Inr (Single \<lparr>version = v, url = u\<rparr>))))))"

definition get_latest_release_with_prereleases ::
    "env \<Rightarrow> cval \<times> cval \<Rightarrow> (error + version_result) \<times> request list" where
  "get_latest_release_with_prereleases e k =
     (case k of (repo, token) \<Rightarrow>
        (case cval_as_str repo of
           Inl x \<Rightarrow> (Inl x, [])
         | Inr r \<Rightarrow>
             (case py_split CHR ''/'' r of
                [owner, reponame] \<Rightarrow>
                  (let hs = graphql_headers token;
                       q = QUERY_LATEST_RELEASE_WITH_PRERELEASES owner reponame
                   in (err_bind (session_post e GITHUB_GRAPHQL_URL hs q) latest_release_result,
                       [Post GITHUB_GRAPHQL_URL hs q]))
              | _ \<Rightarrow> (Inl ValueError, []))))"

subsection \<open>The REST strategies\<close>

text \<open>The date transform of the commits strategy (line 192).\<close>

definition date_transform :: "string \<Rightarrow> string" where
  "date_transform d =
     py_replace CHR ''T'' ''.'' (py_replace CHR '':'' [] (py_replace CHR ''-'' [] (py_rstrip ''Z'' d)))"

text \<open>One element of the list comprehension of the max-tag branch (lines 172-175).\<close>

definition max_tag_item :: "cval \<Rightarrow> json \<Rightarrow> error + richresult" where
  "max_tag_item repo ref =
     err_bind (subscript_key ref ''ref'') (\<lambda>r.
     err_bind (as_str r) (\<lambda>s.
     err_bind (subscript_key ref ''ref'') (\<lambda>r'.
     err_bind (as_str r') (\<lambda>s'.
       Inr \<lparr>version = JStr (last (split_max CHR ''/'' 2 s)),
            url = JStr (tag_url (py_str repo) (last (split_max CHR ''/'' 2 s')))\<rparr>))))"

text \<open>The three ways the REST payload is read (lines 170-194), in the order of the source.\<close>

definition rest_result :: "cval \<Rightarrow> cval \<Rightarrow> cval \<Rightarrow> json \<Rightarrow> error + version_result" where
  "rest_result repo use_max_tag use_latest_release data =
     (if truthy use_max_tag then
        err_bind (json_iter data) (\<lambda>refs.
        err_bind (map_err (max_tag_item repo) refs) (\<lambda>tags.
          if tags = [] then Inl (GetVersionError ''No tag found in upstream repository.'')
          else Inr (Multi tags)))
      else if truthy use_latest_release then
        err_bind (json_contains ''tag_name'' data) (\<lambda>has.
          if \<not> has then Inl (GetVersionError ''No release found in upstream repository.'')
          else
            err_bind (subscript_key data ''tag_name'') (\<lambda>v.
            err_bind (subscript_key data ''html_url'') (\<lambda>u.
              Inr (Single \<lparr>version = v, url = u\<rparr>))))
      else
        err_bind (subscript_idx data 0) (\<lambda>c0.
        err_bind (subscript_keys c0 [''commit'', ''committer'', ''date'']) (\<lambda>d.
        err_bind (as_str d) (\<lambda>s.
        err_bind (subscript_idx data 0) (\<lambda>c1.
        err_bind (subscript_key c1 ''html_url'') (\<lambda>u.
          Inr (Single \<lparr>version = JStr (date_transform s), url = u\<rparr>)))))))"

definition rest_url :: "(string \<rightharpoonup> cval) \<Rightarrow> cval \<Rightarrow> string" where
  "rest_url conf repo =
     (let br = conf_get conf ''branch'' CNone;
          path = conf_get conf ''path'' CNone
      in if truthy (conf_get conf ''use_latest_release'' (CBool False)) then
           GITHUB_LATEST_RELEASE (py_str repo)
         else if truthy (conf_get conf ''use_max_tag'' (CBool False)) then
           GITHUB_MAX_TAG (py_str repo)
         else
           GITHUB_URL (py_str repo) @ ''?''
             @ urlencode ((if truthy br then [(''sha'', br)] else [])
                          @ (if truthy path then [(''path'', path)] else [])))"

definition rest_headers :: "cval \<Rightarrow> headers" where
  "rest_headers token =
     [(''Accept'', ''application/vnd.github.quicksilver-preview+json'')]
     @ (if truthy token then [(''Authorization'', ''token '' @ py_str token)] else [])"

subsection \<open>\<open>get_version_real\<close>\<close>

text \<open>
  \<open>cache.get(key, fetcher)\<close> runs the fetcher on the key and \<open>cache.get_json\<close> performs the
  GET (a cold cache).
\<close>

definition resolve_token :: "env \<Rightarrow> (string \<rightharpoonup> cval) \<Rightarrow> cval" where
  "resolve_token e conf =
     (let token = conf_get conf ''token'' CNone
      in if token = CNone then (case get_key e ''github'' of None \<Rightarrow> CNone | Some s \<Rightarrow> CStr s)
         else token)"

definition get_version_real ::
    "env \<Rightarrow> string \<Rightarrow> (string \<rightharpoonup> cval) \<Rightarrow> (error + version_result) \<times> request list" where
  "get_version_real e name conf =
     (case conf ''github'' of
        None \<Rightarrow> (Inl (KeyError (KStr ''github'')), [])
      | Some repo \<Rightarrow>
          (let token = resolve_token e conf in
           if truthy (conf_get conf ''use_latest_tag'' (CBool False)) then
             (if \<not> truthy token then (Inl token_required, [])
              else get_latest_tag e (repo, conf_get conf ''query'' (CStr []), token))
           else if truthy (conf_get conf ''use_latest_release'' (CBool False))
                   \<and> truthy (conf_get conf ''include_prereleases'' (CBool False)) then
             (if \<not> truthy token then (Inl token_required, [])
              else get_latest_release_with_prereleases e (repo, token))
           else
             (let u = rest_url conf repo;
                  hs = rest_headers token
              in (err_bind (cache_get_json e u hs)
                    (rest_result repo (conf_get conf ''use_max_tag'' (CBool False))
                                      (conf_get conf ''use_latest_release'' (CBool False))),
                  [GetJson u hs]))))"

subsection \<open>Rate-limit classification\<close>

text \<open>\<open>exc.response\<close>: only a TemporaryError has the attribute.\<close>

fun exc_response :: "error \<Rightarrow> error + response option" where
  "exc_response (TemporaryError c m r) = Inr r"
| "exc_response _ = Inl AttributeError"

text \<open>\<open>int(headers.get(k, -1))\<close> and \<open>int(headers.get(k))\<close>: \<open>int(None)\<close> raises TypeError.\<close>

definition header_int_default :: "env \<Rightarrow> headers \<Rightarrow> string \<Rightarrow> int \<Rightarrow> error + int" where
  "header_int_default e hs k d = (case map_of hs k of None \<Rightarrow> Inr d | Some s \<Rightarrow> py_int e s)"

definition header_int :: "env \<Rightarrow> headers \<Rightarrow> string \<Rightarrow> error + int" where
  "header_int e hs k = (case map_of hs k of None \<Rightarrow> Inl TypeError | Some s \<Rightarrow> py_int e s)"

definition ratelimit_entry :: "string \<Rightarrow> int \<Rightarrow> string \<Rightarrow> logentry" where
  "ratelimit_entry name reset t =
     \<lparr>log_level = ''error'',
      log_event = ''rate limited, resetting at '' @ t
        @ ''. Or get an API token to increase the allowance if not yet'',
      log_name = name,
      log_reset = reset\<rparr>"

text \<open>
  \<open>check_ratelimit\<close>: \<open>Inr ()\<close> is the normal return, \<open>Inl\<close> the exception that leaves the
  function; the bare \<open>raise\<close> re-raises the exception being handled, which is \<open>exc\<close>.
\<close>

definition check_ratelimit :: "env \<Rightarrow> error \<Rightarrow> string \<Rightarrow> (error + unit) \<times> logentry list" where
  "check_ratelimit e exc name =
     (case exc_response exc of
        Inl x \<Rightarrow> (Inl x, [])
      | Inr None \<Rightarrow> (Inl exc, [])
      | Inr (Some res) \<Rightarrow>
          (case header_int_default e (resp_headers res) ''X-RateLimit-Remaining'' (- 1) of
             Inl x \<Rightarrow> (Inl x, [])
           | Inr n \<Rightarrow>
               if n = 0 then
                 (case header_int e (resp_headers res) ''X-RateLimit-Reset'' of
                    Inl x \<Rightarrow> (Inl x, [])
                  | Inr reset \<Rightarrow>
                      (case time_ctime e reset of
                         Inl x \<Rightarrow> (Inl x, [])
                       | Inr t \<Rightarrow> (Inr (), [ratelimit_entry name reset t])))
               else (Inl exc, [])))"

fun is_temporary :: "error \<Rightarrow> bool" where
  "is_temporary (TemporaryError c m r) = True"
| "is_temporary _ = False"

definition get_version ::
    "env \<Rightarrow> string \<Rightarrow> (string \<rightharpoonup> cval) \<Rightarrow> (error + version_result) \<times> request list \<times> logentry list" where
  "get_version e name conf =
     (case get_version_real e name conf of
        (Inr v, reqs) \<Rightarrow> (Inr v, reqs, [])
      | (Inl x, reqs) \<Rightarrow>
          if is_temporary x then
            (case check_ratelimit e x name of
               (Inl y, logs) \<Rightarrow> (Inl y, reqs, logs)
             | (Inr u, logs) \<Rightarrow> (Inr NoResult, reqs, logs))
          else (Inl x, reqs, []))"

subsection \<open>Strategies, timestamps and example inputs\<close>

text \<open>
  The configurations that reach the last branch of the source (lines 189-194), the
  commits strategy: none of the three strategy flags is set.
\<close>

definition commits_strategy :: "(string \<rightharpoonup> cval) \<Rightarrow> bool" where
  "commits_strategy conf =
     (\<not> truthy (conf_get conf ''use_latest_tag'' (CBool False))
      \<and> \<not> truthy (conf_get conf ''use_latest_release'' (CBool False))
      \<and> \<not> truthy (conf_get conf ''use_max_tag'' (CBool False)))"

text \<open>
  The shape of an ISO-8601 timestamp in extended format: digits and the separators
  \<open>- : T . +\<close>, optionally followed by one final \<open>Z\<close>. Every timestamp
  \<open>YYYY-MM-DDTHH:MM:SS\<close> with an optional fraction and \<open>Z\<close> or a numeric offset has it.
\<close>

definition iso8601_shape :: "string \<Rightarrow> bool" where
  "iso8601_shape d =
     (let b = (if d \<noteq> [] \<and> last d = CHR ''Z'' then butlast d else d)
      in list_all (\<lambda>c. is_digit c \<or> c \<in> set ''-:T.+'') b)"

text \<open>An environment whose transport answers every request with the same payload.\<close>

definition stub_env :: "json \<Rightarrow> env" where
  "stub_env data =
     \<lparr>get_key = (\<lambda>k. None),
      session_post = (\<lambda>u hs q. Inr data),
      cache_get_json = (\<lambda>u hs. Inr data),
      str_nonstr = (\<lambda>j. []),
      time_ctime = (\<lambda>t. Inr ''Thu Jan  1 00:00:00 1970''),
      int_nonascii = (\<lambda>s. Inl ValueError),
      int_max_str_digits = 4300\<rparr>"


text \<open>
  The max-tag strategy (lines 152-153 and 170-179) and the REST latest-release strategy
  (lines 150-151 and 181-187), in the order in which the URL is chosen:
  \<open>use_latest_release\<close> comes before \<open>use_max_tag\<close>.
\<close>

definition max_tag_strategy :: "(string \<rightharpoonup> cval) \<Rightarrow> bool" where
  "max_tag_strategy conf =
     (\<not> truthy (conf_get conf ''use_latest_tag'' (CBool False))
      \<and> \<not> truthy (conf_get conf ''use_latest_release'' (CBool False))
      \<and> truthy (conf_get conf ''use_max_tag'' (CBool False)))"

definition latest_release_strategy :: "(string \<rightharpoonup> cval) \<Rightarrow> bool" where
  "latest_release_strategy conf =
     (\<not> truthy (conf_get conf ''use_latest_tag'' (CBool False))
      \<and> truthy (conf_get conf ''use_latest_release'' (CBool False))
      \<and> \<not> truthy (conf_get conf ''include_prereleases'' (CBool False)))"

text \<open>The query string of the commits URL, case by case.\<close>

definition commits_query :: "(string \<rightharpoonup> cval) \<Rightarrow> string" where
  "commits_query conf =
     (let br = conf_get conf ''branch'' CNone;
          path = conf_get conf ''path'' CNone
      in if truthy br \<and> truthy path then
           ''sha='' @ quote_plus (py_str br) @ ''&path='' @ quote_plus (py_str path)
         else if truthy br then ''sha='' @ quote_plus (py_str br)
         else if truthy path then ''path='' @ quote_plus (py_str path)
         else [])"

text \<open>
  What the max-tag strategy returns for one ref string: the version is the last part of
  the ref split at most twice at \<open>/\<close>, the url is synthesized from it.
\<close>

definition tag_result :: "cval \<Rightarrow> string \<Rightarrow> richresult" where
  "tag_result repo r =
     \<lparr>version = JStr (last (split_max CHR ''/'' 2 r)),
      url = JStr (''https://github.com/'' @ py_str repo @ ''/releases/tag/''
                  @ last (split_max CHR ''/'' 2 r))\<rparr>"

definition tags_example :: json where
  "tags_example =
     JArr [JObj [(''ref'', JStr ''refs/tags/v1.2.3''), (''node_id'', JStr ''x'')],
           JObj [(''ref'', JStr ''refs/tags/v1.0'')]]"

definition release_example :: json where
  "release_example = JObj [(''tag_name'', JStr ''v2.0''), (''html_url'', JStr ''https://x'')]"

text \<open>
  An environment whose transport raises the same exception on every request, a
  rate-limited response with given headers, and a GraphQL payload with one tag.
\<close>

definition raising_env :: "error \<Rightarrow> env" where
  "raising_env x =
     \<lparr>get_key = (\<lambda>k. None),
      session_post = (\<lambda>u hs q. Inl x),
      cache_get_json = (\<lambda>u hs. Inl x),
      str_nonstr = (\<lambda>j. []),
      time_ctime = (\<lambda>t. Inr ''Tue Nov 14 22:13:20 2023''),
      int_nonascii = (\<lambda>s. Inl ValueError),
      int_max_str_digits = 4300\<rparr>"

definition limited :: "headers \<Rightarrow> error" where
  "limited hs = TemporaryError 403 ''rate limit exceeded'' (Some \<lparr>resp_headers = hs\<rparr>)"

definition tag_edges_example :: json where
  "tag_edges_example =
     JObj [(''data'', JObj [(''repository'', JObj [(''refs'', JObj [(''edges'',
       JArr [JObj [(''node'', JObj [(''name'', JStr ''v1.0'')])]])])])])]"

definition release_edges_example :: json where
  "release_edges_example =
     JObj [(''data'', JObj [(''repository'', JObj [(''releases'', JObj [(''edges'',
       JArr [JObj [(''node'', JObj [(''name'', JStr ''v2.0-rc1''),
                                    (''url'', JStr ''https://github.com/o/r/releases/tag/v2.0-rc1'')])]])])])])]"

section \<open>Properties\<close>

subsection \<open>String primitives\<close>

lemma py_replace_empty: "py_replace c [] s = filter (\<lambda>x. x \<noteq> c) s"
  by (induction s) (simp_all add: py_replace_def)

lemma py_replace_single: "py_replace c [n] s = map (\<lambda>x. if x = c then n else x) s"
  by (induction s) (simp_all add: py_replace_def)

lemma date_transform_alt:
  "date_transform d =
     map (\<lambda>c. if c = CHR ''T'' then CHR ''.'' else c)
       (filter (\<lambda>c. c \<noteq> CHR ''-'' \<and> c \<noteq> CHR '':'') (py_rstrip ''Z'' d))"
  by (simp add: date_transform_def py_replace_empty py_replace_single conj_commute)

lemma py_rstrip_none: "set s \<inter> set chars = {} \<Longrightarrow> py_rstrip chars s = s"
proof -
  assume a: "set s \<inter> set chars = {}"
  have "dropWhile (\<lambda>c. c \<in> set chars) (rev s) = rev s"
    using a by (cases "rev s") auto
  then show ?thesis by (simp add: py_rstrip_def)
qed

lemma date_transform_fixed:
  assumes "CHR ''Z'' \<notin> set s" "CHR ''-'' \<notin> set s" "CHR '':'' \<notin> set s" "CHR ''T'' \<notin> set s"
  shows "date_transform s = s"
proof -
  have r: "py_rstrip ''Z'' s = s" using assms(1) by (simp add: py_rstrip_none)
  have f: "filter (\<lambda>c. c \<noteq> CHR ''-'' \<and> c \<noteq> CHR '':'') s = s"
    using assms(2,3) by (auto simp: filter_id_conv)
  have m: "map (\<lambda>c. if c = CHR ''T'' then CHR ''.'' else c) s = s"
    using assms(4) by (induction s) auto
  show ?thesis by (simp add: date_transform_alt r f m)
qed



lemma iso_core_no_Z:
  assumes "iso8601_shape d"
  shows "CHR ''Z'' \<notin> set (py_rstrip ''Z'' d)"
proof (cases "d \<noteq> [] \<and> last d = CHR ''Z''")
  case True
  then obtain b where d: "d = b @ [CHR ''Z'']" by (metis append_butlast_last_id)
  with assms have nz: "CHR ''Z'' \<notin> set b"
    by (auto simp: iso8601_shape_def list_all_iff is_digit_def)
  then have "dropWhile (\<lambda>c. c \<in> set ''Z'') (rev b) = rev b" by (cases "rev b") auto
  then have "py_rstrip ''Z'' d = b" by (simp add: py_rstrip_def d)
  with nz show ?thesis by simp
next
  case False
  with assms have nz: "CHR ''Z'' \<notin> set d"
    by (auto simp: iso8601_shape_def list_all_iff is_digit_def)
  then show ?thesis by (simp add: py_rstrip_none)
qed

lemma date_transform_idem_gen:
  assumes "CHR ''Z'' \<notin> set (py_rstrip ''Z'' d)"
  shows "date_transform (date_transform d) = date_transform d"
  by (rule date_transform_fixed) (use assms in \<open>auto simp: date_transform_alt\<close>)


subsection \<open>The REST path\<close>

lemma get_version_real_rest:
  assumes "conf ''github'' = Some repo"
    and "\<not> truthy (conf_get conf ''use_latest_tag'' (CBool False))"
    and "\<not> (truthy (conf_get conf ''use_latest_release'' (CBool False))
            \<and> truthy (conf_get conf ''include_prereleases'' (CBool False)))"
  shows "get_version_real e name conf =
           (err_bind (cache_get_json e (rest_url conf repo) (rest_headers (resolve_token e conf)))
              (rest_result repo (conf_get conf ''use_max_tag'' (CBool False))
                                (conf_get conf ''use_latest_release'' (CBool False))),
            [GetJson (rest_url conf repo) (rest_headers (resolve_token e conf))])"
  using assms by (auto simp: get_version_real_def Let_def)



subsection \<open>The commits strategy\<close>



text \<open>
  C7. The date transform is a total function on strings (a string date never makes it
  raise), and on a timestamp of ISO-8601 shape it is idempotent: its output holds no
  \<open>Z\<close>, \<open>-\<close>, \<open>:\<close> or \<open>T\<close>, so a second application changes nothing.
\<close>

theorem date_transform_idempotent:
  assumes "iso8601_shape d"
  shows "date_transform (date_transform d) = date_transform d
         \<and> set (date_transform d) \<inter> set ''Z-:T'' = {}
         \<and> as_str (JStr d) = Inr d"
proof -
  have nz: "CHR ''Z'' \<notin> set (py_rstrip ''Z'' d)" using assms by (rule iso_core_no_Z)
  have 1: "date_transform (date_transform d) = date_transform d"
    using nz by (rule date_transform_idem_gen)
  have 2: "set (date_transform d) \<inter> set ''Z-:T'' = {}"
    using nz by (auto simp: date_transform_alt)
  show ?thesis using 1 2 by simp
qed

theorem date_transform_idempotent_witness:
  "iso8601_shape ''2023-05-01T12:00:00Z''
   \<and> date_transform ''2023-05-01T12:00:00Z'' = ''20230501.120000''
   \<and> date_transform ''20230501.120000'' = ''20230501.120000''"
proof -
  have h: "iso8601_shape ''2023-05-01T12:00:00Z''"
    by (simp add: iso8601_shape_def is_digit_def)
  have v: "date_transform ''2023-05-01T12:00:00Z'' = ''20230501.120000''"
    by (simp add: date_transform_def py_rstrip_def py_replace_def)
  from date_transform_idempotent [OF h] v show ?thesis using h by simp
qed

subsection \<open>The commits URL\<close>

lemma quote_plus_sha: "quote_plus ''sha'' = ''sha''"
  by (simp add: quote_plus_def quote_char_def url_safe_def)

lemma quote_plus_path: "quote_plus ''path'' = ''path''"
  by (simp add: quote_plus_def quote_char_def url_safe_def)

lemma rest_url_commits:
  assumes "commits_strategy conf"
  shows "rest_url conf repo =
           ''https://api.github.com/repos/'' @ py_str repo @ ''/commits?'' @ commits_query conf"
  using assms
  by (simp add: rest_url_def commits_strategy_def commits_query_def GITHUB_URL_def Let_def
        urlencode_def quote_plus_sha quote_plus_path)

text \<open>
  C8 (as amended). In the commits strategy exactly one request is issued, a GET of
  \<open>https://api.github.com/repos/{repo}/commits\<close> followed by \<open>?\<close> and the url-encoded
  parameters: \<open>sha=branch\<close> is there exactly when \<open>branch\<close> is configured and non-empty,
  \<open>path=path\<close> exactly when \<open>path\<close> is configured and non-empty, joined by \<open>&\<close>. The
  \<open>?\<close> is always appended: with neither configured the URL ends in \<open>/commits?\<close>.
\<close>

theorem commits_url_has_question_mark:
  assumes "conf ''github'' = Some repo" and "commits_strategy conf"
  shows "snd (get_version_real e name conf) =
           [GetJson (''https://api.github.com/repos/'' @ py_str repo @ ''/commits?''
                      @ commits_query conf)
                    (rest_headers (resolve_token e conf))]"
proof -
  have flags: "\<not> truthy (conf_get conf ''use_latest_tag'' (CBool False))"
      "\<not> truthy (conf_get conf ''use_latest_release'' (CBool False))"
    using assms(2) by (simp_all add: commits_strategy_def)
  show ?thesis
    using get_version_real_rest [OF assms(1) flags(1), of e name] flags(2)
      rest_url_commits [OF assms(2), of repo] by simp
qed

lemma commits_strategy_only_repo: "commits_strategy [''github'' \<mapsto> CStr ''o/r'']"
  by (simp add: commits_strategy_def conf_get_def)

lemma commits_query_only_repo: "commits_query [''github'' \<mapsto> CStr ''o/r''] = []"
  by (simp add: commits_query_def conf_get_def)

lemma resolve_token_stub_only_repo:
  "resolve_token (stub_env j) [''github'' \<mapsto> CStr ''o/r''] = CNone"
  by (simp add: resolve_token_def conf_get_def stub_env_def)

theorem commits_url_has_question_mark_witness:
  "snd (get_version_real (stub_env JNull) ''proj'' [''github'' \<mapsto> CStr ''o/r'']) =
     [GetJson ''https://api.github.com/repos/o/r/commits?''
        [(''Accept'', ''application/vnd.github.quicksilver-preview+json'')]]"
proof -
  have 1: "[''github'' \<mapsto> CStr ''o/r''] ''github'' = Some (CStr ''o/r'')" by simp
  from commits_url_has_question_mark [OF 1 commits_strategy_only_repo, of "stub_env JNull" "''proj''"]
  show ?thesis
    by (simp add: commits_query_only_repo resolve_token_stub_only_repo rest_headers_def)
qed

text \<open>
  With only the repository configured, the URL requested is not the bare
  \<open>https://api.github.com/repos/o/r/commits\<close>.
\<close>

theorem commits_url_bare_counterexample:
  "snd (get_version_real (stub_env JNull) ''proj'' [''github'' \<mapsto> CStr ''o/r'']) \<noteq>
     [GetJson ''https://api.github.com/repos/o/r/commits''
        [(''Accept'', ''application/vnd.github.quicksilver-preview+json'')]]"
proof -
  have 1: "[''github'' \<mapsto> CStr ''o/r''] ''github'' = Some (CStr ''o/r'')" by simp
  have 2: "\<not> truthy (conf_get [''github'' \<mapsto> CStr ''o/r''] ''use_latest_tag'' (CBool False))"
    by (simp add: conf_get_def)
  have 3: "\<not> (truthy (conf_get [''github'' \<mapsto> CStr ''o/r''] ''use_latest_release'' (CBool False))
      \<and> truthy (conf_get [''github'' \<mapsto> CStr ''o/r''] ''include_prereleases'' (CBool False)))"
    by (simp add: conf_get_def)
  have u: "rest_url [''github'' \<mapsto> CStr ''o/r''] (CStr ''o/r'')
             = ''https://api.github.com/repos/o/r/commits?''"
    using rest_url_commits [OF commits_strategy_only_repo, of "CStr ''o/r''"]
    by (simp add: commits_query_only_repo)
  show ?thesis
    using get_version_real_rest [OF 1 2 3, of "stub_env JNull" "''proj''"]
    by (simp add: u)
qed

text \<open>
  C9. In the commits strategy an empty JSON array makes \<open>data[0]\<close> raise IndexError:
  the resolution fails with that error and with no GetVersionError.
\<close>

theorem commits_empty_array_index_error:
  assumes "conf ''github'' = Some repo" and "commits_strategy conf"
    and "cache_get_json e (rest_url conf repo) (rest_headers (resolve_token e conf))
           = Inr (JArr [])"
  shows "fst (get_version_real e name conf) = Inl IndexError
         \<and> (\<forall>m. fst (get_version_real e name conf) \<noteq> Inl (GetVersionError m))"
proof -
  have flags: "\<not> truthy (conf_get conf ''use_latest_tag'' (CBool False))"
      "\<not> truthy (conf_get conf ''use_latest_release'' (CBool False))"
      "\<not> truthy (conf_get conf ''use_max_tag'' (CBool False))"
    using assms(2) by (simp_all add: commits_strategy_def)
  have "rest_result repo (conf_get conf ''use_max_tag'' (CBool False))
          (conf_get conf ''use_latest_release'' (CBool False)) (JArr []) = Inl IndexError"
    using flags by (simp add: rest_result_def)
  then have "fst (get_version_real e name conf) = Inl IndexError"
    using get_version_real_rest [OF assms(1) flags(1), of e name] flags(2) assms(3) by simp
  then show ?thesis by simp
qed

theorem commits_empty_array_index_error_witness:
  "fst (get_version_real (stub_env (JArr [])) ''proj'' [''github'' \<mapsto> CStr ''o/r''])
     = Inl IndexError"
proof -
  have 1: "[''github'' \<mapsto> CStr ''o/r''] ''github'' = Some (CStr ''o/r'')" by simp
  have 3: "cache_get_json (stub_env (JArr [])) (rest_url [''github'' \<mapsto> CStr ''o/r''] (CStr ''o/r''))
             (rest_headers (resolve_token (stub_env (JArr [])) [''github'' \<mapsto> CStr ''o/r'']))
           = Inr (JArr [])"
    by (simp add: stub_env_def)
  from commits_empty_array_index_error [OF 1 commits_strategy_only_repo 3, of "''proj''"]
  show ?thesis by (rule conjunct1)
qed

subsection \<open>The max-tag and latest-release strategies\<close>

lemma split_max_prefix:
  "c \<notin> set a \<Longrightarrow> split_max c (Suc n) (a @ c # rest) = a # split_max c n rest"
  by (induction a) (auto simp: Let_def)

lemma split_max_two_slashes:
  assumes "CHR ''/'' \<notin> set a" "CHR ''/'' \<notin> set b"
  shows "split_max CHR ''/'' 2 (a @ ''/'' @ b @ ''/'' @ c) = [a, b, c]"
proof -
  have "split_max CHR ''/'' (Suc (Suc 0)) (a @ CHR ''/'' # (b @ CHR ''/'' # c))
          = a # split_max CHR ''/'' (Suc 0) (b @ CHR ''/'' # c)"
    using assms(1) by (rule split_max_prefix)
  also have "split_max CHR ''/'' (Suc 0) (b @ CHR ''/'' # c) = b # split_max CHR ''/'' 0 c"
    using assms(2) by (rule split_max_prefix)
  finally show ?thesis by (simp add: numeral_2_eq_2)
qed

lemma tag_result_two_slashes:
  assumes "CHR ''/'' \<notin> set a" "CHR ''/'' \<notin> set b"
  shows "tag_result repo (a @ ''/'' @ b @ ''/'' @ c) =
           \<lparr>version = JStr c,
            url = JStr (''https://github.com/'' @ py_str repo @ ''/releases/tag/'' @ c)\<rparr>"
  unfolding tag_result_def split_max_two_slashes [OF assms] by simp

lemma split_max_example: "split_max CHR ''/'' 2 ''refs/tags/v1.2.3'' = [''refs'', ''tags'', ''v1.2.3'']"
  using split_max_two_slashes [of "''refs''" "''tags''" "''v1.2.3''"] by simp

lemma max_tag_item_ref:
  "subscript_key x ''ref'' = Inr (JStr r) \<Longrightarrow> max_tag_item repo x = Inr (tag_result repo r)"
  by (simp add: max_tag_item_def tag_result_def tag_url_def)

lemma map_err_max_tag:
  "map (\<lambda>x. subscript_key x ''ref'') elems = map (\<lambda>r. Inr (JStr r)) rs
   \<Longrightarrow> map_err (max_tag_item repo) elems = Inr (map (tag_result repo) rs)"
proof (induction elems arbitrary: rs)
  case Nil
  then show ?case by simp
next
  case (Cons x xs)
  then obtain r rs' where rs: "rs = r # rs'" by (cases rs) auto
  with Cons.prems have h: "subscript_key x ''ref'' = Inr (JStr r)"
    and t: "map (\<lambda>x. subscript_key x ''ref'') xs = map (\<lambda>r. Inr (JStr r)) rs'"
    by simp_all
  show ?case using max_tag_item_ref [OF h, of repo] Cons.IH [OF t] by (simp add: rs)
qed

lemma rest_result_max_tag:
  assumes "truthy umt"
    and "map (\<lambda>x. subscript_key x ''ref'') elems = map (\<lambda>r. Inr (JStr r)) rs"
  shows "rest_result repo umt ulr (JArr elems) =
           (if rs = [] then Inl (GetVersionError ''No tag found in upstream repository.'')
            else Inr (Multi (map (tag_result repo) rs)))"
  using assms(1) map_err_max_tag [OF assms(2), of repo] by (simp add: rest_result_def)

text \<open>
  C4. In the max-tag strategy, when the payload is an array whose elements each carry a
  string \<open>ref\<close>, an empty array fails with
  \<open>GetVersionError("No tag found in upstream repository.")\<close>, and otherwise the result is
  the list with one record per element, in the order of the array: version the last part
  of the ref split at most twice at \<open>/\<close>, url
  \<open>https://github.com/{repo}/releases/tag/{version}\<close>. A ref \<open>a/b/c\<close> with no \<open>/\<close> in
  \<open>a\<close> and \<open>b\<close> gives version \<open>c\<close>, so \<open>refs/tags/v1.2.3\<close> gives \<open>v1.2.3\<close>.
\<close>

theorem max_tag_results:
  assumes "conf ''github'' = Some repo" and "max_tag_strategy conf"
    and "cache_get_json e (rest_url conf repo) (rest_headers (resolve_token e conf))
           = Inr (JArr elems)"
    and "map (\<lambda>x. subscript_key x ''ref'') elems = map (\<lambda>r. Inr (JStr r)) rs"
  shows "fst (get_version_real e name conf) =
           (if elems = [] then Inl (GetVersionError ''No tag found in upstream repository.'')
            else Inr (Multi (map (tag_result repo) rs)))
         \<and> length rs = length elems
         \<and> (\<forall>a b c. CHR ''/'' \<notin> set a \<and> CHR ''/'' \<notin> set b \<longrightarrow>
               tag_result repo (a @ ''/'' @ b @ ''/'' @ c) =
                 \<lparr>version = JStr c,
                  url = JStr (''https://github.com/'' @ py_str repo @ ''/releases/tag/'' @ c)\<rparr>)"
proof -
  have flags: "\<not> truthy (conf_get conf ''use_latest_tag'' (CBool False))"
      "\<not> truthy (conf_get conf ''use_latest_release'' (CBool False))"
      "truthy (conf_get conf ''use_max_tag'' (CBool False))"
    using assms(2) by (simp_all add: max_tag_strategy_def)
  have len: "length rs = length elems" using assms(4) by (metis length_map)
  have "fst (get_version_real e name conf) =
          rest_result repo (conf_get conf ''use_max_tag'' (CBool False))
            (conf_get conf ''use_latest_release'' (CBool False)) (JArr elems)"
    using get_version_real_rest [OF assms(1) flags(1), of e name] flags(2) assms(3) by simp
  then have a: "fst (get_version_real e name conf) =
      (if elems = [] then Inl (GetVersionError ''No tag found in upstream repository.'')
       else Inr (Multi (map (tag_result repo) rs)))"
    using rest_result_max_tag [OF flags(3) assms(4), of repo] len by auto
  have b: "\<forall>a b c. CHR ''/'' \<notin> set a \<and> CHR ''/'' \<notin> set b \<longrightarrow>
               tag_result repo (a @ ''/'' @ b @ ''/'' @ c) =
                 \<lparr>version = JStr c,
                  url = JStr (''https://github.com/'' @ py_str repo @ ''/releases/tag/'' @ c)\<rparr>"
    using tag_result_two_slashes by blast
  show ?thesis using a len b by blast
qed

theorem max_tag_results_witness:
  "fst (get_version_real (stub_env tags_example) ''proj''
          [''github'' \<mapsto> CStr ''o/r'', ''use_max_tag'' \<mapsto> CBool True]) =
     Inr (Multi [\<lparr>version = JStr ''v1.2.3'', url = JStr ''https://github.com/o/r/releases/tag/v1.2.3''\<rparr>,
                 \<lparr>version = JStr ''v1.0'', url = JStr ''https://github.com/o/r/releases/tag/v1.0''\<rparr>])
   \<and> fst (get_version_real (stub_env (JArr [])) ''proj''
          [''github'' \<mapsto> CStr ''o/r'', ''use_max_tag'' \<mapsto> CBool True]) =
     Inl (GetVersionError ''No tag found in upstream repository.'')"
proof -
  let ?conf = "[''github'' \<mapsto> CStr ''o/r'', ''use_max_tag'' \<mapsto> CBool True]"
  let ?elems = "[JObj [(''ref'', JStr ''refs/tags/v1.2.3''), (''node_id'', JStr ''x'')],
                 JObj [(''ref'', JStr ''refs/tags/v1.0'')]]"
  have 1: "?conf ''github'' = Some (CStr ''o/r'')" by simp
  have 2: "max_tag_strategy ?conf" by (simp add: max_tag_strategy_def conf_get_def)
  have 3: "cache_get_json (stub_env tags_example) (rest_url ?conf (CStr ''o/r''))
             (rest_headers (resolve_token (stub_env tags_example) ?conf)) = Inr (JArr ?elems)"
    by (simp add: stub_env_def tags_example_def)
  have 4: "map (\<lambda>x. subscript_key x ''ref'') ?elems
             = map (\<lambda>r. Inr (JStr r)) [''refs/tags/v1.2.3'', ''refs/tags/v1.0'']"
    by simp
  have n1: "CHR ''/'' \<notin> set ''refs''" and n2: "CHR ''/'' \<notin> set ''tags''" by simp_all
  note inst = max_tag_results [OF 1 2 3 4, of "''proj''"]
  from inst have r: "fst (get_version_real (stub_env tags_example) ''proj'' ?conf) =
      Inr (Multi (map (tag_result (CStr ''o/r'')) [''refs/tags/v1.2.3'', ''refs/tags/v1.0'']))"
    by simp
  from inst have "\<forall>a b c. CHR ''/'' \<notin> set a \<and> CHR ''/'' \<notin> set b \<longrightarrow>
      tag_result (CStr ''o/r'') (a @ ''/'' @ b @ ''/'' @ c) =
        \<lparr>version = JStr c,
         url = JStr (''https://github.com/'' @ py_str (CStr ''o/r'') @ ''/releases/tag/'' @ c)\<rparr>"
    by blast
  then have t: "\<And>c. tag_result (CStr ''o/r'') (''refs'' @ ''/'' @ ''tags'' @ ''/'' @ c) =
        \<lparr>version = JStr c,
         url = JStr (''https://github.com/'' @ py_str (CStr ''o/r'') @ ''/releases/tag/'' @ c)\<rparr>"
    using n1 n2 by blast
  have t1: "tag_result (CStr ''o/r'') ''refs/tags/v1.2.3'' =
      \<lparr>version = JStr ''v1.2.3'', url = JStr ''https://github.com/o/r/releases/tag/v1.2.3''\<rparr>"
    using t [of "''v1.2.3''"] by simp
  have t2: "tag_result (CStr ''o/r'') ''refs/tags/v1.0'' =
      \<lparr>version = JStr ''v1.0'', url = JStr ''https://github.com/o/r/releases/tag/v1.0''\<rparr>"
    using t [of "''v1.0''"] by simp
  have A: "fst (get_version_real (stub_env tags_example) ''proj'' ?conf) =
     Inr (Multi [\<lparr>version = JStr ''v1.2.3'', url = JStr ''https://github.com/o/r/releases/tag/v1.2.3''\<rparr>,
                 \<lparr>version = JStr ''v1.0'', url = JStr ''https://github.com/o/r/releases/tag/v1.0''\<rparr>])"
    using r by (simp add: t1 t2)
  have e3: "cache_get_json (stub_env (JArr [])) (rest_url ?conf (CStr ''o/r''))
             (rest_headers (resolve_token (stub_env (JArr [])) ?conf)) = Inr (JArr [])"
    by (simp add: stub_env_def)
  have e4: "map (\<lambda>x. subscript_key x ''ref'') [] = map (\<lambda>r. Inr (JStr r)) []" by simp
  from max_tag_results [OF 1 2 e3 e4, of "''proj''"]
  have B: "fst (get_version_real (stub_env (JArr [])) ''proj'' ?conf) =
     Inl (GetVersionError ''No tag found in upstream repository.'')"
    by simp
  show ?thesis using A B by blast
qed

lemma rest_result_latest_release:
  assumes "\<not> truthy umt" "truthy ulr"
  shows "rest_result repo umt ulr (JObj kvs) =
           (case map_of kvs ''tag_name'' of
              None \<Rightarrow> Inl (GetVersionError ''No release found in upstream repository.'')
            | Some t \<Rightarrow>
                (case map_of kvs ''html_url'' of
                   None \<Rightarrow> Inl (KeyError (KStr ''html_url''))
                 | Some u \<Rightarrow> Inr (Single \<lparr>version = t, url = u\<rparr>)))"
proof (cases "map_of kvs ''tag_name''")
  case None
  then have "''tag_name'' \<notin> set (map fst kvs)" by (simp add: map_of_eq_None_iff)
  with assms None show ?thesis by (simp add: rest_result_def)
next
  case (Some t)
  then have "''tag_name'' \<in> set (map fst kvs)"
    by (metis map_of_eq_None_iff option.distinct(1) set_map)
  with assms Some show ?thesis by (simp add: rest_result_def split: option.splits)
qed

lemma rest_latest_release_without_max_tag:
  assumes "conf ''github'' = Some repo" and "latest_release_strategy conf"
    and "\<not> truthy (conf_get conf ''use_max_tag'' (CBool False))"
    and "cache_get_json e (rest_url conf repo) (rest_headers (resolve_token e conf))
           = Inr (JObj kvs)"
  shows "fst (get_version_real e name conf) =
           (case map_of kvs ''tag_name'' of
              None \<Rightarrow> Inl (GetVersionError ''No release found in upstream repository.'')
            | Some t \<Rightarrow>
                (case map_of kvs ''html_url'' of
                   None \<Rightarrow> Inl (KeyError (KStr ''html_url''))
                 | Some u \<Rightarrow> Inr (Single \<lparr>version = t, url = u\<rparr>)))"
proof -
  have flags: "\<not> truthy (conf_get conf ''use_latest_tag'' (CBool False))"
      "truthy (conf_get conf ''use_latest_release'' (CBool False))"
      "\<not> truthy (conf_get conf ''include_prereleases'' (CBool False))"
    using assms(2) by (simp_all add: latest_release_strategy_def)
  have "fst (get_version_real e name conf) =
          rest_result repo (conf_get conf ''use_max_tag'' (CBool False))
            (conf_get conf ''use_latest_release'' (CBool False)) (JObj kvs)"
    using get_version_real_rest [OF assms(1) flags(1), of e name] flags(3) assms(4) by simp
  then show ?thesis
    using rest_result_latest_release [OF assms(3) flags(2)] by simp
qed

lemma rest_result_max_tag_on_object:
  assumes "truthy umt"
  shows "rest_result repo umt ulr (JObj (kv # kvs)) = Inl TypeError"
  using assms by (simp add: rest_result_def max_tag_item_def)

lemma rest_url_latest_release:
  assumes "latest_release_strategy conf"
  shows "rest_url conf repo = ''https://api.github.com/repos/'' @ py_str repo @ ''/releases/latest''"
  using assms by (simp add: rest_url_def latest_release_strategy_def GITHUB_LATEST_RELEASE_def)

lemma latest_release_with_max_tag:
  assumes "conf ''github'' = Some repo" and "latest_release_strategy conf"
    and "truthy (conf_get conf ''use_max_tag'' (CBool False))"
    and "cache_get_json e (rest_url conf repo) (rest_headers (resolve_token e conf))
           = Inr (JObj (kv # kvs))"
  shows "get_version_real e name conf =
           (Inl TypeError,
            [GetJson (''https://api.github.com/repos/'' @ py_str repo @ ''/releases/latest'')
               (rest_headers (resolve_token e conf))])"
proof -
  have flags: "\<not> truthy (conf_get conf ''use_latest_tag'' (CBool False))"
      "\<not> truthy (conf_get conf ''include_prereleases'' (CBool False))"
    using assms(2) by (simp_all add: latest_release_strategy_def)
  show ?thesis
    using get_version_real_rest [OF assms(1) flags(1), of e name] flags(2) assms(4)
      rest_result_max_tag_on_object [OF assms(3), of repo _ kv kvs]
      rest_url_latest_release [OF assms(2), of repo]
    by simp
qed

text \<open>
  C5. In the REST latest-release strategy the URL requested is \<open>releases/latest\<close>, and
  the payload \<open>{tag_name: "v2.0", html_url: "https://x"}\<close> should give
  \<open>{version: "v2.0", url: "https://x"}\<close>. With \<open>use_latest_release\<close> alone it does. With
  \<open>use_max_tag\<close> set as well, the URL is still \<open>releases/latest\<close> (line 150 tests
  \<open>use_latest_release\<close> first), but line 170 tests \<open>use_max_tag\<close> first and reads the
  payload as a list of refs: the loop runs over the keys of the object, \<open>ref['ref']\<close>
  subscripts the string \<open>tag_name\<close>, and the resolution ends in a TypeError.
\<close>

theorem latest_release_max_tag_type_error:
  "get_version_real (stub_env release_example) ''proj''
     [''github'' \<mapsto> CStr ''o/r'', ''use_latest_release'' \<mapsto> CBool True,
      ''use_max_tag'' \<mapsto> CBool True] =
     (Inl TypeError,
      [GetJson ''https://api.github.com/repos/o/r/releases/latest''
         [(''Accept'', ''application/vnd.github.quicksilver-preview+json'')]])
   \<and> get_version_real (stub_env release_example) ''proj''
     [''github'' \<mapsto> CStr ''o/r'', ''use_latest_release'' \<mapsto> CBool True] =
     (Inr (Single \<lparr>version = JStr ''v2.0'', url = JStr ''https://x''\<rparr>),
      [GetJson ''https://api.github.com/repos/o/r/releases/latest''
         [(''Accept'', ''application/vnd.github.quicksilver-preview+json'')]])"
proof -
  let ?e = "stub_env release_example"
  let ?c1 = "[''github'' \<mapsto> CStr ''o/r'', ''use_latest_release'' \<mapsto> CBool True,
              ''use_max_tag'' \<mapsto> CBool True]"
  let ?c2 = "[''github'' \<mapsto> CStr ''o/r'', ''use_latest_release'' \<mapsto> CBool True]"
  let ?kv = "(''tag_name'', JStr ''v2.0'')"
  let ?kvs = "[(''html_url'', JStr ''https://x'')]"
  have a1: "?c1 ''github'' = Some (CStr ''o/r'')" by simp
  have a2: "latest_release_strategy ?c1" by (simp add: latest_release_strategy_def conf_get_def)
  have a3: "truthy (conf_get ?c1 ''use_max_tag'' (CBool False))" by (simp add: conf_get_def)
  have a4: "cache_get_json ?e (rest_url ?c1 (CStr ''o/r'')) (rest_headers (resolve_token ?e ?c1))
              = Inr (JObj (?kv # ?kvs))"
    by (simp add: stub_env_def release_example_def)
  have a5: "resolve_token ?e ?c1 = CNone"
    by (simp add: resolve_token_def conf_get_def stub_env_def)
  have A: "get_version_real ?e ''proj'' ?c1 =
     (Inl TypeError,
      [GetJson ''https://api.github.com/repos/o/r/releases/latest''
         [(''Accept'', ''application/vnd.github.quicksilver-preview+json'')]])"
    using latest_release_with_max_tag [OF a1 a2 a3 a4, of "''proj''"]
    by (simp only: a5) (simp add: rest_headers_def)
  have b1: "?c2 ''github'' = Some (CStr ''o/r'')" by simp
  have b2: "\<not> truthy (conf_get ?c2 ''use_latest_tag'' (CBool False))" by (simp add: conf_get_def)
  have b3: "\<not> (truthy (conf_get ?c2 ''use_latest_release'' (CBool False))
              \<and> truthy (conf_get ?c2 ''include_prereleases'' (CBool False)))"
    by (simp add: conf_get_def)
  have b4: "latest_release_strategy ?c2" by (simp add: latest_release_strategy_def conf_get_def)
  have b5: "resolve_token ?e ?c2 = CNone"
    by (simp add: resolve_token_def conf_get_def stub_env_def)
  have b6: "rest_url ?c2 (CStr ''o/r'') = ''https://api.github.com/repos/o/r/releases/latest''"
    using rest_url_latest_release [OF b4, of "CStr ''o/r''"] by simp
  have b7: "rest_result (CStr ''o/r'') (conf_get ?c2 ''use_max_tag'' (CBool False))
              (conf_get ?c2 ''use_latest_release'' (CBool False)) release_example
            = Inr (Single \<lparr>version = JStr ''v2.0'', url = JStr ''https://x''\<rparr>)"
    by (simp add: rest_result_def conf_get_def release_example_def)
  have b8: "cache_get_json ?e ''https://api.github.com/repos/o/r/releases/latest''
              (rest_headers CNone) = Inr release_example"
    by (simp add: stub_env_def)
  have B: "get_version_real ?e ''proj'' ?c2 =
     (Inr (Single \<lparr>version = JStr ''v2.0'', url = JStr ''https://x''\<rparr>),
      [GetJson ''https://api.github.com/repos/o/r/releases/latest''
         [(''Accept'', ''application/vnd.github.quicksilver-preview+json'')]])"
    using get_version_real_rest [OF b1 b2 b3, of ?e "''proj''"]
    by (simp only: b5 b6 b7 b8 err_bind.simps) (simp add: rest_headers_def)
  show ?thesis using A B by blast
qed

subsection \<open>Integers in headers\<close>

lemma py_int_zero: "py_int e ''0'' = Inr 0"
  by (simp add: py_int_def is_ascii_def py_strip_def is_space_def int_unsigned_def is_digit_def
        digit_val_def over_digit_limit_def digit_count_def)

lemma py_int_abc: "py_int e ''abc'' = Inl ValueError"
  by (simp add: py_int_def is_ascii_def py_strip_def is_space_def int_unsigned_def is_digit_def
        digit_val_def over_digit_limit_def digit_count_def)

lemma py_int_reset: "py_int e ''1700000000'' = Inr 1700000000"
  by (simp add: py_int_def is_ascii_def py_strip_def is_space_def int_unsigned_def is_digit_def
        digit_val_def over_digit_limit_def digit_count_def)

lemma py_int_five: "py_int e ''5'' = Inr 5"
  by (simp add: py_int_def is_ascii_def py_strip_def is_space_def int_unsigned_def is_digit_def
        digit_val_def over_digit_limit_def digit_count_def)

subsection \<open>Strategy selection\<close>

lemma conf_get_cong:
  "conf' k = conf k \<Longrightarrow> conf_get conf' k d = conf_get conf k d"
  by (simp add: conf_get_def)

lemma resolve_token_cong:
  "conf' ''token'' = conf ''token'' \<Longrightarrow> resolve_token e conf' = resolve_token e conf"
  by (simp add: resolve_token_def conf_get_def)

lemma get_version_real_latest_tag:
  assumes "conf ''github'' = Some repo"
    and "truthy (conf_get conf ''use_latest_tag'' (CBool False))"
  shows "get_version_real e name conf =
           (if \<not> truthy (resolve_token e conf) then (Inl token_required, [])
            else get_latest_tag e (repo, conf_get conf ''query'' (CStr []), resolve_token e conf))"
  using assms by (simp add: get_version_real_def Let_def)

lemma get_version_real_prereleases:
  assumes "conf ''github'' = Some repo"
    and "\<not> truthy (conf_get conf ''use_latest_tag'' (CBool False))"
    and "truthy (conf_get conf ''use_latest_release'' (CBool False))"
    and "truthy (conf_get conf ''include_prereleases'' (CBool False))"
  shows "get_version_real e name conf =
           (if \<not> truthy (resolve_token e conf) then (Inl token_required, [])
            else get_latest_release_with_prereleases e (repo, resolve_token e conf))"
  using assms by (simp add: get_version_real_def Let_def)

lemma get_latest_tag_requests:
  "r \<in> set (snd (get_latest_tag e k)) \<Longrightarrow> \<exists>hs q. r = Post GITHUB_GRAPHQL_URL hs q"
  by (auto simp: get_latest_tag_def Let_def split: prod.splits sum.splits list.splits)

lemma get_version_real_latest_tag_cong:
  assumes "conf ''github'' = Some repo"
    and "truthy (conf_get conf ''use_latest_tag'' (CBool False))"
    and "conf' ''github'' = conf ''github''" and "conf' ''token'' = conf ''token''"
    and "conf' ''use_latest_tag'' = conf ''use_latest_tag''" and "conf' ''query'' = conf ''query''"
  shows "get_version_real e name conf' = get_version_real e name conf"
proof -
  have g: "conf' ''github'' = Some repo" using assms(1,3) by simp
  have t: "truthy (conf_get conf' ''use_latest_tag'' (CBool False))"
    using assms(2) conf_get_cong [of conf' "''use_latest_tag''" conf, OF assms(5)] by simp
  show ?thesis
    unfolding get_version_real_latest_tag [of conf' repo, OF g t]
      get_version_real_latest_tag [of conf repo, OF assms(1,2)]
      resolve_token_cong [of conf' conf, OF assms(4)]
      conf_get_cong [of conf' "''query''" conf, OF assms(6)] ..
qed

text \<open>
  C1. Selection is first-match-wins. When \<open>use_latest_tag\<close> is set the resolution is the
  one of \<open>get_latest_tag\<close> (after the token check): every request it issues is a POST to
  the GraphQL endpoint, and the result is the same for every configuration that agrees on
  \<open>github\<close>, \<open>token\<close>, \<open>use_latest_tag\<close> and \<open>query\<close>, whatever \<open>use_max_tag\<close>,
  \<open>use_latest_release\<close> and the other options say. Otherwise, when \<open>use_latest_release\<close>
  and \<open>include_prereleases\<close> are both set, it is the one of
  \<open>get_latest_release_with_prereleases\<close>; otherwise exactly one REST GET is issued.
\<close>

theorem latest_tag_precedence:
  assumes "conf ''github'' = Some repo"
  shows "(truthy (conf_get conf ''use_latest_tag'' (CBool False)) \<longrightarrow>
            get_version_real e name conf =
              (if \<not> truthy (resolve_token e conf)
               then (Inl (GetVersionError ''token not given but it is required''), [])
               else get_latest_tag e (repo, conf_get conf ''query'' (CStr []), resolve_token e conf))
            \<and> (\<forall>r \<in> set (snd (get_version_real e name conf)). \<exists>hs q. r = Post GITHUB_GRAPHQL_URL hs q)
            \<and> (\<forall>conf'. conf' ''github'' = conf ''github'' \<and> conf' ''token'' = conf ''token''
                   \<and> conf' ''use_latest_tag'' = conf ''use_latest_tag''
                   \<and> conf' ''query'' = conf ''query''
                 \<longrightarrow> get_version_real e name conf' = get_version_real e name conf))
         \<and> (\<not> truthy (conf_get conf ''use_latest_tag'' (CBool False))
            \<and> truthy (conf_get conf ''use_latest_release'' (CBool False))
            \<and> truthy (conf_get conf ''include_prereleases'' (CBool False)) \<longrightarrow>
            get_version_real e name conf =
              (if \<not> truthy (resolve_token e conf)
               then (Inl (GetVersionError ''token not given but it is required''), [])
               else get_latest_release_with_prereleases e (repo, resolve_token e conf)))
         \<and> (\<not> truthy (conf_get conf ''use_latest_tag'' (CBool False))
            \<and> \<not> (truthy (conf_get conf ''use_latest_release'' (CBool False))
                  \<and> truthy (conf_get conf ''include_prereleases'' (CBool False))) \<longrightarrow>
            snd (get_version_real e name conf) =
              [GetJson (rest_url conf repo) (rest_headers (resolve_token e conf))])"
proof (intro conjI impI)
  assume t: "truthy (conf_get conf ''use_latest_tag'' (CBool False))"
  show "get_version_real e name conf =
          (if \<not> truthy (resolve_token e conf)
           then (Inl (GetVersionError ''token not given but it is required''), [])
           else get_latest_tag e (repo, conf_get conf ''query'' (CStr []), resolve_token e conf))"
    using get_version_real_latest_tag [of conf repo e name] assms t
    by (simp add: token_required_def)
  show "\<forall>r \<in> set (snd (get_version_real e name conf)). \<exists>hs q. r = Post GITHUB_GRAPHQL_URL hs q"
    using get_version_real_latest_tag [of conf repo e name] assms t get_latest_tag_requests
    by (auto split: if_splits)
  show "\<forall>conf'. conf' ''github'' = conf ''github'' \<and> conf' ''token'' = conf ''token''
                   \<and> conf' ''use_latest_tag'' = conf ''use_latest_tag''
                   \<and> conf' ''query'' = conf ''query''
                 \<longrightarrow> get_version_real e name conf' = get_version_real e name conf"
    using get_version_real_latest_tag_cong [of conf repo _ e name] assms t by blast
next
  assume a: "\<not> truthy (conf_get conf ''use_latest_tag'' (CBool False))
            \<and> truthy (conf_get conf ''use_latest_release'' (CBool False))
            \<and> truthy (conf_get conf ''include_prereleases'' (CBool False))"
  then show "get_version_real e name conf =
              (if \<not> truthy (resolve_token e conf)
               then (Inl (GetVersionError ''token not given but it is required''), [])
               else get_latest_release_with_prereleases e (repo, resolve_token e conf))"
    using get_version_real_prereleases [of conf repo e name] assms
    by (simp add: token_required_def)
next
  assume a: "\<not> truthy (conf_get conf ''use_latest_tag'' (CBool False))
            \<and> \<not> (truthy (conf_get conf ''use_latest_release'' (CBool False))
                  \<and> truthy (conf_get conf ''include_prereleases'' (CBool False)))"
  then show "snd (get_version_real e name conf) =
              [GetJson (rest_url conf repo) (rest_headers (resolve_token e conf))]"
    using get_version_real_rest [of conf repo e name] assms by simp
qed

lemma py_split_o_r: "py_split CHR ''/'' ''o/r'' = [''o'', ''r'']"
  by (simp add: py_split_def Let_def)

lemma latest_tag_result_example:
  "latest_tag_result e (CStr ''o/r'') tag_edges_example =
     Inr (Single \<lparr>version = JStr ''v1.0'',
                  url = JStr ''https://github.com/o/r/releases/tag/v1.0''\<rparr>)"
  by (simp add: latest_tag_result_def tag_edges_example_def tag_url_def json_str_def)

lemma latest_release_result_example:
  "latest_release_result release_edges_example =
     Inr (Single \<lparr>version = JStr ''v2.0-rc1'',
                  url = JStr ''https://github.com/o/r/releases/tag/v2.0-rc1''\<rparr>)"
  by (simp add: latest_release_result_def release_edges_example_def)

theorem latest_tag_precedence_witness:
  "get_version_real (stub_env tag_edges_example) ''proj''
     [''github'' \<mapsto> CStr ''o/r'', ''token'' \<mapsto> CStr ''t'', ''use_latest_tag'' \<mapsto> CBool True,
      ''use_max_tag'' \<mapsto> CBool True, ''use_latest_release'' \<mapsto> CBool True] =
   (Inr (Single \<lparr>version = JStr ''v1.0'',
                 url = JStr ''https://github.com/o/r/releases/tag/v1.0''\<rparr>),
    [Post GITHUB_GRAPHQL_URL (graphql_headers (CStr ''t'')) (QUERY_LATEST_TAG ''o'' ''r'' [])])
   \<and> get_version_real (stub_env release_edges_example) ''proj''
     [''github'' \<mapsto> CStr ''o/r'', ''token'' \<mapsto> CStr ''t'', ''use_latest_release'' \<mapsto> CBool True,
      ''include_prereleases'' \<mapsto> CBool True, ''use_max_tag'' \<mapsto> CBool True] =
   (Inr (Single \<lparr>version = JStr ''v2.0-rc1'',
                 url = JStr ''https://github.com/o/r/releases/tag/v2.0-rc1''\<rparr>),
    [Post GITHUB_GRAPHQL_URL (graphql_headers (CStr ''t''))
       (QUERY_LATEST_RELEASE_WITH_PRERELEASES ''o'' ''r'')])
   \<and> snd (get_version_real (stub_env tags_example) ''proj''
          [''github'' \<mapsto> CStr ''o/r'', ''use_max_tag'' \<mapsto> CBool True]) =
   [GetJson ''https://api.github.com/repos/o/r/git/refs/tags''
      [(''Accept'', ''application/vnd.github.quicksilver-preview+json'')]]"
proof -
  let ?conf = "[''github'' \<mapsto> CStr ''o/r'', ''token'' \<mapsto> CStr ''t'',
                ''use_latest_tag'' \<mapsto> CBool True, ''use_max_tag'' \<mapsto> CBool True,
                ''use_latest_release'' \<mapsto> CBool True]"
  let ?e = "stub_env tag_edges_example"
  have 1: "?conf ''github'' = Some (CStr ''o/r'')" by simp
  have 2: "truthy (conf_get ?conf ''use_latest_tag'' (CBool False))" by (simp add: conf_get_def)
  have 3: "resolve_token ?e ?conf = CStr ''t''" by (simp add: resolve_token_def conf_get_def)
  have 4: "conf_get ?conf ''query'' (CStr []) = CStr []" by (simp add: conf_get_def)
  have 5: "get_latest_tag ?e (CStr ''o/r'', CStr [], CStr ''t'') =
      (Inr (Single \<lparr>version = JStr ''v1.0'',
                    url = JStr ''https://github.com/o/r/releases/tag/v1.0''\<rparr>),
       [Post GITHUB_GRAPHQL_URL (graphql_headers (CStr ''t'')) (QUERY_LATEST_TAG ''o'' ''r'' [])])"
    by (simp add: get_latest_tag_def py_split_o_r Let_def latest_tag_result_example)
       (simp add: stub_env_def latest_tag_result_example)
  from latest_tag_precedence [of ?conf "CStr ''o/r''" ?e "''proj''", OF 1] 2
  have "get_version_real ?e ''proj'' ?conf =
      (if \<not> truthy (resolve_token ?e ?conf)
       then (Inl (GetVersionError ''token not given but it is required''), [])
       else get_latest_tag ?e (CStr ''o/r'', conf_get ?conf ''query'' (CStr []), resolve_token ?e ?conf))"
    by blast
  then have A: "get_version_real ?e ''proj'' ?conf =
      (Inr (Single \<lparr>version = JStr ''v1.0'',
                    url = JStr ''https://github.com/o/r/releases/tag/v1.0''\<rparr>),
       [Post GITHUB_GRAPHQL_URL (graphql_headers (CStr ''t'')) (QUERY_LATEST_TAG ''o'' ''r'' [])])"
    by (simp only: 3 4 5 truthy.simps) simp
  let ?conf2 = "[''github'' \<mapsto> CStr ''o/r'', ''token'' \<mapsto> CStr ''t'',
                 ''use_latest_release'' \<mapsto> CBool True, ''include_prereleases'' \<mapsto> CBool True,
                 ''use_max_tag'' \<mapsto> CBool True]"
  let ?e2 = "stub_env release_edges_example"
  have b1: "?conf2 ''github'' = Some (CStr ''o/r'')" by simp
  have b2: "\<not> truthy (conf_get ?conf2 ''use_latest_tag'' (CBool False))
            \<and> truthy (conf_get ?conf2 ''use_latest_release'' (CBool False))
            \<and> truthy (conf_get ?conf2 ''include_prereleases'' (CBool False))"
    by (simp add: conf_get_def)
  have b3: "resolve_token ?e2 ?conf2 = CStr ''t''" by (simp add: resolve_token_def conf_get_def)
  have b5: "get_latest_release_with_prereleases ?e2 (CStr ''o/r'', CStr ''t'') =
      (Inr (Single \<lparr>version = JStr ''v2.0-rc1'',
                    url = JStr ''https://github.com/o/r/releases/tag/v2.0-rc1''\<rparr>),
       [Post GITHUB_GRAPHQL_URL (graphql_headers (CStr ''t''))
          (QUERY_LATEST_RELEASE_WITH_PRERELEASES ''o'' ''r'')])"
    by (simp add: get_latest_release_with_prereleases_def py_split_o_r Let_def)
       (simp add: stub_env_def latest_release_result_example)
  from latest_tag_precedence [of ?conf2 "CStr ''o/r''" ?e2 "''proj''", OF b1] b2
  have "get_version_real ?e2 ''proj'' ?conf2 =
      (if \<not> truthy (resolve_token ?e2 ?conf2)
       then (Inl (GetVersionError ''token not given but it is required''), [])
       else get_latest_release_with_prereleases ?e2 (CStr ''o/r'', resolve_token ?e2 ?conf2))"
    by blast
  then have B: "get_version_real ?e2 ''proj'' ?conf2 =
      (Inr (Single \<lparr>version = JStr ''v2.0-rc1'',
                    url = JStr ''https://github.com/o/r/releases/tag/v2.0-rc1''\<rparr>),
       [Post GITHUB_GRAPHQL_URL (graphql_headers (CStr ''t''))
          (QUERY_LATEST_RELEASE_WITH_PRERELEASES ''o'' ''r'')])"
    by (simp only: b3 b5 truthy.simps) simp
  let ?conf3 = "[''github'' \<mapsto> CStr ''o/r'', ''use_max_tag'' \<mapsto> CBool True]"
  let ?e3 = "stub_env tags_example"
  have c1: "?conf3 ''github'' = Some (CStr ''o/r'')" by simp
  have c2: "\<not> truthy (conf_get ?conf3 ''use_latest_tag'' (CBool False))
            \<and> \<not> (truthy (conf_get ?conf3 ''use_latest_release'' (CBool False))
                  \<and> truthy (conf_get ?conf3 ''include_prereleases'' (CBool False)))"
    by (simp add: conf_get_def)
  have c3: "resolve_token ?e3 ?conf3 = CNone"
    by (simp add: resolve_token_def conf_get_def stub_env_def)
  have c4: "rest_url ?conf3 (CStr ''o/r'') = ''https://api.github.com/repos/o/r/git/refs/tags''"
    by (simp add: rest_url_def conf_get_def GITHUB_MAX_TAG_def)
  from latest_tag_precedence [of ?conf3 "CStr ''o/r''" ?e3 "''proj''", OF c1] c2
  have "snd (get_version_real ?e3 ''proj'' ?conf3) =
      [GetJson (rest_url ?conf3 (CStr ''o/r'')) (rest_headers (resolve_token ?e3 ?conf3))]"
    by blast
  then have C: "snd (get_version_real ?e3 ''proj'' ?conf3) =
      [GetJson ''https://api.github.com/repos/o/r/git/refs/tags''
         [(''Accept'', ''application/vnd.github.quicksilver-preview+json'')]]"
    by (simp only: c3 c4) (simp add: rest_headers_def)
  show ?thesis using A B C by blast
qed

text \<open>
  C3. When \<open>use_latest_tag\<close> is set, or \<open>use_latest_release\<close> and
  \<open>include_prereleases\<close> both are, and the token is empty or absent after the
  configuration and the key manager have been asked, the resolution fails with
  \<open>GetVersionError("token not given but it is required")\<close> and no request has been issued.
\<close>

theorem token_required_before_request:
  assumes "conf ''github'' = Some repo"
    and "truthy (conf_get conf ''use_latest_tag'' (CBool False))
         \<or> (truthy (conf_get conf ''use_latest_release'' (CBool False))
            \<and> truthy (conf_get conf ''include_prereleases'' (CBool False)))"
    and "\<not> truthy (resolve_token e conf)"
  shows "get_version_real e name conf =
           (Inl (GetVersionError ''token not given but it is required''), [])
         \<and> get_version e name conf =
           (Inl (GetVersionError ''token not given but it is required''), [], [])"
proof -
  have r: "get_version_real e name conf =
      (Inl (GetVersionError ''token not given but it is required''), [])"
  proof (cases "truthy (conf_get conf ''use_latest_tag'' (CBool False))")
    case True
    then show ?thesis
      using get_version_real_latest_tag [of conf repo e name] assms(1,3)
      by (simp add: token_required_def)
  next
    case False
    then show ?thesis
      using get_version_real_prereleases [of conf repo e name] assms
      by (simp add: token_required_def)
  qed
  then show ?thesis by (simp add: get_version_def)
qed

lemma resolve_token_falsy_iff:
  "\<not> truthy (resolve_token e conf) \<longleftrightarrow>
     (case conf ''token'' of
        None \<Rightarrow> get_key e ''github'' \<in> {None, Some []}
      | Some CNone \<Rightarrow> get_key e ''github'' \<in> {None, Some []}
      | Some (CStr s) \<Rightarrow> s = []
      | Some (CBool b) \<Rightarrow> \<not> b)"
  by (auto simp: resolve_token_def conf_get_def split: option.splits cval.splits)

theorem token_required_before_request_witness:
  "get_version_real (stub_env tag_edges_example) ''proj''
     [''github'' \<mapsto> CStr ''o/r'', ''use_latest_tag'' \<mapsto> CBool True] =
     (Inl (GetVersionError ''token not given but it is required''), [])
   \<and> get_version_real (stub_env tag_edges_example) ''proj''
     [''github'' \<mapsto> CStr ''o/r'', ''token'' \<mapsto> CStr [], ''use_latest_release'' \<mapsto> CBool True,
      ''include_prereleases'' \<mapsto> CBool True] =
     (Inl (GetVersionError ''token not given but it is required''), [])"
proof -
  let ?e = "stub_env tag_edges_example"
  let ?c1 = "[''github'' \<mapsto> CStr ''o/r'', ''use_latest_tag'' \<mapsto> CBool True]"
  let ?c2 = "[''github'' \<mapsto> CStr ''o/r'', ''token'' \<mapsto> CStr [],
              ''use_latest_release'' \<mapsto> CBool True, ''include_prereleases'' \<mapsto> CBool True]"
  have a1: "?c1 ''github'' = Some (CStr ''o/r'')" by simp
  have a2: "truthy (conf_get ?c1 ''use_latest_tag'' (CBool False))
         \<or> (truthy (conf_get ?c1 ''use_latest_release'' (CBool False))
            \<and> truthy (conf_get ?c1 ''include_prereleases'' (CBool False)))"
    by (simp add: conf_get_def)
  have a3: "\<not> truthy (resolve_token ?e ?c1)"
    by (simp add: resolve_token_def conf_get_def stub_env_def)
  have b1: "?c2 ''github'' = Some (CStr ''o/r'')" by simp
  have b2: "truthy (conf_get ?c2 ''use_latest_tag'' (CBool False))
         \<or> (truthy (conf_get ?c2 ''use_latest_release'' (CBool False))
            \<and> truthy (conf_get ?c2 ''include_prereleases'' (CBool False)))"
    by (simp add: conf_get_def)
  have b3: "\<not> truthy (resolve_token ?e ?c2)"
    by (simp add: resolve_token_def conf_get_def stub_env_def)
  from token_required_before_request [of ?c1 "CStr ''o/r''" ?e "''proj''", OF a1 a2 a3]
    token_required_before_request [of ?c2 "CStr ''o/r''" ?e "''proj''", OF b1 b2 b3]
  show ?thesis by blast
qed

subsection \<open>Rate-limit classification\<close>

lemma check_ratelimit_no_response:
  "check_ratelimit e (TemporaryError c m None) name = (Inl (TemporaryError c m None), [])"
  by (simp add: check_ratelimit_def)

lemma check_ratelimit_zero:
  assumes "map_of (resp_headers res) ''X-RateLimit-Remaining'' = Some s" and "py_int e s = Inr 0"
  shows "check_ratelimit e (TemporaryError c m (Some res)) name =
           (case header_int e (resp_headers res) ''X-RateLimit-Reset'' of
              Inl x \<Rightarrow> (Inl x, [])
            | Inr reset \<Rightarrow>
                (case time_ctime e reset of
                   Inl x \<Rightarrow> (Inl x, [])
                 | Inr t \<Rightarrow> (Inr (), [ratelimit_entry name reset t])))"
  using assms by (simp add: check_ratelimit_def header_int_default_def)

lemma check_ratelimit_nonzero:
  assumes "map_of (resp_headers res) ''X-RateLimit-Remaining'' = Some s"
    and "py_int e s = Inr n" and "n \<noteq> 0"
  shows "check_ratelimit e (TemporaryError c m (Some res)) name =
           (Inl (TemporaryError c m (Some res)), [])"
  using assms by (simp add: check_ratelimit_def header_int_default_def)

lemma check_ratelimit_absent:
  assumes "map_of (resp_headers res) ''X-RateLimit-Remaining'' = None"
  shows "check_ratelimit e (TemporaryError c m (Some res)) name =
           (Inl (TemporaryError c m (Some res)), [])"
  using assms by (simp add: check_ratelimit_def header_int_default_def)

lemma get_version_temporary:
  assumes "get_version_real e name conf = (Inl (TemporaryError c m r), reqs)"
  shows "get_version e name conf =
           (case check_ratelimit e (TemporaryError c m r) name of
              (Inl y, logs) \<Rightarrow> (Inl y, reqs, logs)
            | (Inr u, logs) \<Rightarrow> (Inr NoResult, reqs, logs))"
  using assms by (simp add: get_version_def)

text \<open>
  C10. When \<open>X-RateLimit-Remaining\<close> reads as 0, \<open>X-RateLimit-Reset\<close> is converted with
  no default: if it is absent, \<open>int(None)\<close> raises TypeError, which leaves
  \<open>check_ratelimit\<close> with no log entry written; and whenever \<open>check_ratelimit\<close> returns
  normally, the header was present and read as an integer.
\<close>

theorem ratelimit_reset_required:
  assumes "map_of (resp_headers res) ''X-RateLimit-Remaining'' = Some s" and "py_int e s = Inr 0"
  shows "(map_of (resp_headers res) ''X-RateLimit-Reset'' = None \<longrightarrow>
            check_ratelimit e (TemporaryError c m (Some res)) name = (Inl TypeError, []))
         \<and> (fst (check_ratelimit e (TemporaryError c m (Some res)) name) = Inr () \<longrightarrow>
            (\<exists>s' reset. map_of (resp_headers res) ''X-RateLimit-Reset'' = Some s'
                        \<and> py_int e s' = Inr reset))"
proof -
  note z = check_ratelimit_zero [OF assms, of c m name]
  have 1: "map_of (resp_headers res) ''X-RateLimit-Reset'' = None \<longrightarrow>
            check_ratelimit e (TemporaryError c m (Some res)) name = (Inl TypeError, [])"
    by (simp add: z header_int_def)
  have 2: "fst (check_ratelimit e (TemporaryError c m (Some res)) name) = Inr () \<longrightarrow>
            (\<exists>s' reset. map_of (resp_headers res) ''X-RateLimit-Reset'' = Some s'
                        \<and> py_int e s' = Inr reset)"
    by (auto simp: z header_int_def split: option.splits sum.splits)
  show ?thesis using 1 2 by blast
qed

theorem ratelimit_reset_required_witness:
  "check_ratelimit (stub_env JNull)
     (TemporaryError 403 ''rate limit exceeded''
        (Some \<lparr>resp_headers = [(''X-RateLimit-Remaining'', ''0'')]\<rparr>)) ''proj''
   = (Inl TypeError, [])
   \<and> (fst (check_ratelimit (stub_env JNull)
        (TemporaryError 403 ''rate limit exceeded''
          (Some \<lparr>resp_headers = [(''X-RateLimit-Remaining'', ''0''),
                                 (''X-RateLimit-Reset'', ''1700000000'')]\<rparr>)) ''proj'') = Inr ()
      \<and> map_of [(''X-RateLimit-Remaining'', ''0''), (''X-RateLimit-Reset'', ''1700000000'')]
           ''X-RateLimit-Reset'' \<noteq> None)"
proof -
  let ?res = "\<lparr>resp_headers = [(''X-RateLimit-Remaining'', ''0'')]\<rparr>"
  have 1: "map_of (resp_headers ?res) ''X-RateLimit-Remaining'' = Some ''0''" by simp
  have 2: "map_of (resp_headers ?res) ''X-RateLimit-Reset'' = None" by simp
  from ratelimit_reset_required [OF 1 py_int_zero, of "stub_env JNull" 403 "''rate limit exceeded''" "''proj''"] 2
  have A: "check_ratelimit (stub_env JNull)
     (TemporaryError 403 ''rate limit exceeded'' (Some ?res)) ''proj'' = (Inl TypeError, [])"
    by blast
  let ?res2 = "\<lparr>resp_headers = [(''X-RateLimit-Remaining'', ''0''),
                                 (''X-RateLimit-Reset'', ''1700000000'')]\<rparr>"
  have b1: "map_of (resp_headers ?res2) ''X-RateLimit-Remaining'' = Some ''0''" by simp
  have b2: "fst (check_ratelimit (stub_env JNull)
        (TemporaryError 403 ''rate limit exceeded'' (Some ?res2)) ''proj'') = Inr ()"
    by (simp add: check_ratelimit_def header_int_default_def header_int_def py_int_zero
          py_int_reset stub_env_def)
  from ratelimit_reset_required [OF b1 py_int_zero, of "stub_env JNull" 403 "''rate limit exceeded''" "''proj''"] b2
  have "\<exists>s' reset. map_of (resp_headers ?res2) ''X-RateLimit-Reset'' = Some s'
      \<and> py_int (stub_env JNull) s' = Inr reset"
    by blast
  then have B: "map_of [(''X-RateLimit-Remaining'', ''0''), (''X-RateLimit-Reset'', ''1700000000'')]
           ''X-RateLimit-Reset'' \<noteq> None"
    by auto
  show ?thesis using A b2 B by blast
qed

text \<open>
  C2 (as amended). When \<open>get_version_real\<close> raises a TemporaryError, the outcome of
  \<open>get_version\<close> is the outcome of one call of \<open>check_ratelimit\<close> on it. With no response
  attached the failure is re-raised unchanged. With \<open>X-RateLimit-Remaining\<close> reading as
  the integer 0, \<open>X-RateLimit-Reset\<close> present and reading as an integer and
  \<open>time.ctime\<close> rendering it, exactly one error entry with the project name and the
  reset time is logged and \<open>get_version\<close> returns \<open>None\<close>. With the header absent, or
  reading as any other integer, the failure is re-raised unchanged.
\<close>

theorem ratelimit_classification:
  assumes "get_version_real e name conf = (Inl (TemporaryError c m r), reqs)"
  shows "get_version e name conf =
           (case check_ratelimit e (TemporaryError c m r) name of
              (Inl y, logs) \<Rightarrow> (Inl y, reqs, logs)
            | (Inr u, logs) \<Rightarrow> (Inr NoResult, reqs, logs))
         \<and> (r = None \<longrightarrow> get_version e name conf = (Inl (TemporaryError c m r), reqs, []))
         \<and> (\<forall>res s s' reset t.
               r = Some res
               \<and> map_of (resp_headers res) ''X-RateLimit-Remaining'' = Some s \<and> py_int e s = Inr 0
               \<and> map_of (resp_headers res) ''X-RateLimit-Reset'' = Some s' \<and> py_int e s' = Inr reset
               \<and> time_ctime e reset = Inr t
             \<longrightarrow> get_version e name conf =
                   (Inr NoResult, reqs,
                    [\<lparr>log_level = ''error'',
                      log_event = ''rate limited, resetting at '' @ t
                        @ ''. Or get an API token to increase the allowance if not yet'',
                      log_name = name, log_reset = reset\<rparr>]))
         \<and> (\<forall>res. r = Some res \<and> map_of (resp_headers res) ''X-RateLimit-Remaining'' = None
             \<longrightarrow> get_version e name conf = (Inl (TemporaryError c m r), reqs, []))
         \<and> (\<forall>res s n.
               r = Some res
               \<and> map_of (resp_headers res) ''X-RateLimit-Remaining'' = Some s \<and> py_int e s = Inr n
               \<and> n \<noteq> 0
             \<longrightarrow> get_version e name conf = (Inl (TemporaryError c m r), reqs, []))"
proof -
  note g = get_version_temporary [OF assms]
  have 1: "r = None \<longrightarrow> get_version e name conf = (Inl (TemporaryError c m r), reqs, [])"
    by (simp add: g check_ratelimit_no_response)
  have 2: "\<forall>res s s' reset t.
               r = Some res
               \<and> map_of (resp_headers res) ''X-RateLimit-Remaining'' = Some s \<and> py_int e s = Inr 0
               \<and> map_of (resp_headers res) ''X-RateLimit-Reset'' = Some s' \<and> py_int e s' = Inr reset
               \<and> time_ctime e reset = Inr t
             \<longrightarrow> get_version e name conf =
                   (Inr NoResult, reqs,
                    [\<lparr>log_level = ''error'',
                      log_event = ''rate limited, resetting at '' @ t
                        @ ''. Or get an API token to increase the allowance if not yet'',
                      log_name = name, log_reset = reset\<rparr>])"
    by (auto simp: g check_ratelimit_zero header_int_def ratelimit_entry_def)
  have 3: "\<forall>res. r = Some res \<and> map_of (resp_headers res) ''X-RateLimit-Remaining'' = None
             \<longrightarrow> get_version e name conf = (Inl (TemporaryError c m r), reqs, [])"
    by (auto simp: g check_ratelimit_absent)
  have 4: "\<forall>res s n.
               r = Some res
               \<and> map_of (resp_headers res) ''X-RateLimit-Remaining'' = Some s \<and> py_int e s = Inr n
               \<and> n \<noteq> 0
             \<longrightarrow> get_version e name conf = (Inl (TemporaryError c m r), reqs, [])"
    by (auto simp: g check_ratelimit_nonzero)
  show ?thesis using g 1 2 3 4 by blast
qed

lemma get_version_real_raising:
  "get_version_real (raising_env x) ''proj'' [''github'' \<mapsto> CStr ''o/r''] =
     (Inl x, [GetJson ''https://api.github.com/repos/o/r/commits?''
                [(''Accept'', ''application/vnd.github.quicksilver-preview+json'')]])"
proof -
  have 1: "[''github'' \<mapsto> CStr ''o/r''] ''github'' = Some (CStr ''o/r'')" by simp
  have 2: "\<not> truthy (conf_get [''github'' \<mapsto> CStr ''o/r''] ''use_latest_tag'' (CBool False))"
    by (simp add: conf_get_def)
  have 3: "\<not> (truthy (conf_get [''github'' \<mapsto> CStr ''o/r''] ''use_latest_release'' (CBool False))
      \<and> truthy (conf_get [''github'' \<mapsto> CStr ''o/r''] ''include_prereleases'' (CBool False)))"
    by (simp add: conf_get_def)
  have u: "rest_url [''github'' \<mapsto> CStr ''o/r''] (CStr ''o/r'')
             = ''https://api.github.com/repos/o/r/commits?''"
    using rest_url_commits [OF commits_strategy_only_repo, of "CStr ''o/r''"]
    by (simp add: commits_query_only_repo)
  have t: "resolve_token (raising_env x) [''github'' \<mapsto> CStr ''o/r''] = CNone"
    by (simp add: resolve_token_def conf_get_def raising_env_def)
  have c: "\<And>u hs. cache_get_json (raising_env x) u hs = Inl x" by (simp add: raising_env_def)
  show ?thesis
    using get_version_real_rest [OF 1 2 3, of "raising_env x" "''proj''"]
    by (simp add: u t c rest_headers_def)
qed

theorem ratelimit_classification_witness:
  "get_version
     (raising_env (limited [(''X-RateLimit-Remaining'', ''0''), (''X-RateLimit-Reset'', ''1700000000'')]))
     ''proj'' [''github'' \<mapsto> CStr ''o/r'']
   = (Inr NoResult,
      [GetJson ''https://api.github.com/repos/o/r/commits?''
         [(''Accept'', ''application/vnd.github.quicksilver-preview+json'')]],
      [\<lparr>log_level = ''error'',
        log_event = ''rate limited, resetting at Tue Nov 14 22:13:20 2023. Or get an API token to increase the allowance if not yet'',
        log_name = ''proj'', log_reset = 1700000000\<rparr>])
   \<and> get_version (raising_env (TemporaryError 599 ''timeout'' None)) ''proj''
        [''github'' \<mapsto> CStr ''o/r'']
   = (Inl (TemporaryError 599 ''timeout'' None),
      [GetJson ''https://api.github.com/repos/o/r/commits?''
         [(''Accept'', ''application/vnd.github.quicksilver-preview+json'')]],
      [])
   \<and> get_version (raising_env (limited [])) ''proj'' [''github'' \<mapsto> CStr ''o/r'']
   = (Inl (limited []),
      [GetJson ''https://api.github.com/repos/o/r/commits?''
         [(''Accept'', ''application/vnd.github.quicksilver-preview+json'')]],
      [])
   \<and> get_version (raising_env (limited [(''X-RateLimit-Remaining'', ''5'')])) ''proj''
        [''github'' \<mapsto> CStr ''o/r'']
   = (Inl (limited [(''X-RateLimit-Remaining'', ''5'')]),
      [GetJson ''https://api.github.com/repos/o/r/commits?''
         [(''Accept'', ''application/vnd.github.quicksilver-preview+json'')]],
      [])"
proof -
  let ?hs = "[(''X-RateLimit-Remaining'', ''0''), (''X-RateLimit-Reset'', ''1700000000'')]"
  let ?e = "raising_env (limited ?hs)"
  let ?conf = "[''github'' \<mapsto> CStr ''o/r'']"
  let ?reqs = "[GetJson ''https://api.github.com/repos/o/r/commits?''
                  [(''Accept'', ''application/vnd.github.quicksilver-preview+json'')]]"
  have 1: "get_version_real ?e ''proj'' ?conf =
      (Inl (TemporaryError 403 ''rate limit exceeded'' (Some \<lparr>resp_headers = ?hs\<rparr>)), ?reqs)"
    using get_version_real_raising [of "limited ?hs"] by (simp add: limited_def)
  have h: "Some \<lparr>resp_headers = ?hs\<rparr> = Some \<lparr>resp_headers = ?hs\<rparr>
      \<and> map_of (resp_headers \<lparr>resp_headers = ?hs\<rparr>) ''X-RateLimit-Remaining'' = Some ''0''
      \<and> py_int ?e ''0'' = Inr 0
      \<and> map_of (resp_headers \<lparr>resp_headers = ?hs\<rparr>) ''X-RateLimit-Reset'' = Some ''1700000000''
      \<and> py_int ?e ''1700000000'' = Inr 1700000000
      \<and> time_ctime ?e 1700000000 = Inr ''Tue Nov 14 22:13:20 2023''"
    by (simp add: py_int_zero py_int_reset raising_env_def)
  from ratelimit_classification [OF 1] h
  have "get_version ?e ''proj'' ?conf =
      (Inr NoResult, ?reqs,
       [\<lparr>log_level = ''error'',
         log_event = ''rate limited, resetting at '' @ ''Tue Nov 14 22:13:20 2023''
           @ ''. Or get an API token to increase the allowance if not yet'',
         log_name = ''proj'', log_reset = 1700000000\<rparr>])"
    by blast
  then have A: "get_version ?e ''proj'' ?conf =
      (Inr NoResult, ?reqs,
       [\<lparr>log_level = ''error'',
         log_event = ''rate limited, resetting at Tue Nov 14 22:13:20 2023. Or get an API token to increase the allowance if not yet'',
         log_name = ''proj'', log_reset = 1700000000\<rparr>])"
    by simp
  let ?x = "TemporaryError 599 ''timeout'' None"
  have b1: "get_version_real (raising_env ?x) ''proj'' ?conf = (Inl ?x, ?reqs)"
    by (rule get_version_real_raising)
  from ratelimit_classification [OF b1]
  have B: "get_version (raising_env ?x) ''proj'' ?conf = (Inl ?x, ?reqs, [])"
    by blast
  let ?r3 = "\<lparr>resp_headers = []\<rparr>"
  have c1: "get_version_real (raising_env (limited [])) ''proj'' ?conf =
      (Inl (TemporaryError 403 ''rate limit exceeded'' (Some ?r3)), ?reqs)"
    using get_version_real_raising [of "limited []"] by (simp add: limited_def)
  have c2: "Some ?r3 = Some ?r3 \<and> map_of (resp_headers ?r3) ''X-RateLimit-Remaining'' = None"
    by simp
  from ratelimit_classification [OF c1] c2
  have "get_version (raising_env (limited [])) ''proj'' ?conf =
      (Inl (TemporaryError 403 ''rate limit exceeded'' (Some ?r3)), ?reqs, [])"
    by blast
  then have C: "get_version (raising_env (limited [])) ''proj'' ?conf = (Inl (limited []), ?reqs, [])"
    by (simp add: limited_def)
  let ?h4 = "[(''X-RateLimit-Remaining'', ''5'')]"
  let ?r4 = "\<lparr>resp_headers = ?h4\<rparr>"
  have d1: "get_version_real (raising_env (limited ?h4)) ''proj'' ?conf =
      (Inl (TemporaryError 403 ''rate limit exceeded'' (Some ?r4)), ?reqs)"
    using get_version_real_raising [of "limited ?h4"] by (simp add: limited_def)
  have d2: "Some ?r4 = Some ?r4 \<and> map_of (resp_headers ?r4) ''X-RateLimit-Remaining'' = Some ''5''
      \<and> py_int (raising_env (limited ?h4)) ''5'' = Inr 5 \<and> (5::int) \<noteq> 0"
    by (simp add: py_int_five)
  from ratelimit_classification [OF d1] d2
  have "get_version (raising_env (limited ?h4)) ''proj'' ?conf =
      (Inl (TemporaryError 403 ''rate limit exceeded'' (Some ?r4)), ?reqs, [])"
    by blast
  then have D: "get_version (raising_env (limited ?h4)) ''proj'' ?conf = (Inl (limited ?h4), ?reqs, [])"
    by (simp add: limited_def)
  show ?thesis using A B C D by blast
qed

text \<open>
  With \<open>X-RateLimit-Remaining: 0\<close> and no \<open>X-RateLimit-Reset\<close> nothing is logged and a
  TypeError propagates; with a value that is not an integer a ValueError does.
\<close>

theorem ratelimit_unsuppressed_counterexample:
  "get_version (raising_env (limited [(''X-RateLimit-Remaining'', ''0'')])) ''proj''
     [''github'' \<mapsto> CStr ''o/r'']
   = (Inl TypeError,
      [GetJson ''https://api.github.com/repos/o/r/commits?''
         [(''Accept'', ''application/vnd.github.quicksilver-preview+json'')]],
      [])
   \<and> get_version (raising_env (limited [(''X-RateLimit-Remaining'', ''abc'')])) ''proj''
     [''github'' \<mapsto> CStr ''o/r'']
   = (Inl ValueError,
      [GetJson ''https://api.github.com/repos/o/r/commits?''
         [(''Accept'', ''application/vnd.github.quicksilver-preview+json'')]],
      [])"
proof -
  have a: "check_ratelimit (raising_env (limited [(''X-RateLimit-Remaining'', ''0'')]))
             (limited [(''X-RateLimit-Remaining'', ''0'')]) ''proj'' = (Inl TypeError, [])"
    by (simp add: check_ratelimit_def limited_def header_int_default_def header_int_def py_int_zero)
  have b: "check_ratelimit (raising_env (limited [(''X-RateLimit-Remaining'', ''abc'')]))
             (limited [(''X-RateLimit-Remaining'', ''abc'')]) ''proj'' = (Inl ValueError, [])"
    by (simp add: check_ratelimit_def limited_def header_int_default_def py_int_abc)
  have t: "\<And>hs. is_temporary (limited hs)" by (simp add: limited_def)
  show ?thesis
    by (simp add: get_version_def get_version_real_raising a b t)
qed

end
